theory Spec2Isabelle
  imports Main "HOL-Library.AList"
begin

section \<open>The signaling and admission hub of \<^verbatim>\<open>server/server.js\<close>\<close>

text \<open>
  The hub keeps six process-wide JavaScript \<^verbatim>\<open>Map\<close>s and reacts to socket events.
  A \<^verbatim>\<open>Map\<close> iterates in insertion order, \<^verbatim>\<open>set\<close> on a present key keeps the key's
  position and \<^verbatim>\<open>delete\<close> removes the entry: this is an association list with
  \<open>map_of\<close> for \<^verbatim>\<open>get\<close>, \<open>AList.update\<close> for \<^verbatim>\<open>set\<close> and \<open>AList.delete\<close> for
  \<^verbatim>\<open>delete\<close>. A \<^verbatim>\<open>Set\<close> is a list without repetition.

  Identifiers (room ids, user ids, socket ids) are strings. User and room ids come from
  the client and may be any string; a socket id is assigned by socket.io, and a stored
  socket id that is \<^verbatim>\<open>null\<close> is \<open>None\<close>.
  \<^verbatim>\<open>Date.now()\<close> is the parameter \<open>now\<close> (milliseconds) of each handler, read once
  per event. Every payload field is present and has the type its handler expects.
\<close>

type_synonym rid = string
type_synonym uid = string
type_synonym sid = string

subsection \<open>Constants\<close>

definition REQUEST_TIMEOUT :: int where
  "REQUEST_TIMEOUT = 5 * 60 * 1000"

definition DEDUP_WINDOW :: int where
  "DEDUP_WINDOW = 5000"

subsection \<open>Stored records\<close>

record mediaState =
  audio :: bool
  video :: bool

record participant =
  p_oduserId :: uid
  p_userName :: string
  p_socketId :: sid
  p_isHost :: bool
  p_mediaState :: mediaState
  p_joinedAt :: int

record metadata =
  hostUserId :: uid
  hostSocketId :: sid
  createdAt :: int
  waitingRoomEnabled :: bool
  meetingStartTime :: "int option"

record request =
  r_oduserId :: uid
  r_userName :: string
  r_socketId :: "sid option"
  requestedAt :: int
  status :: string

record denial =
  deniedAt :: int
  reason :: string

record sockuser =
  su_oduserId :: uid
  su_userName :: "string option"
  su_roomId :: rid

text \<open>
  The state: the six maps of the source, and \<open>sioRooms\<close>, the room membership that
  socket.io keeps for \<^verbatim>\<open>socket.join\<close>, \<^verbatim>\<open>socket.leave\<close>, \<^verbatim>\<open>io.to(room)\<close> and
  \<^verbatim>\<open>socket.to(room)\<close>; a socket is connected when it is in the room named by its id.
\<close>

record hub =
  rooms :: "(rid \<times> (sid \<times> participant) list) list"
  roomMetadata :: "(rid \<times> metadata) list"
  approvedUsers :: "(rid \<times> uid list) list"
  pendingJoinRequests :: "(rid \<times> (uid \<times> request) list) list"
  deniedUsers :: "(rid \<times> (uid \<times> denial) list) list"
  socketUserMap :: "(sid \<times> sockuser) list"
  sioRooms :: "(rid \<times> sid list) list"

definition init_hub :: hub where
  "init_hub = \<lparr> rooms = [], roomMetadata = [], approvedUsers = [],
     pendingJoinRequests = [], deniedUsers = [], socketUserMap = [], sioRooms = [] \<rparr>"

subsection \<open>Outbound events\<close>

record participantInfo =
  i_oduserId :: uid
  i_userName :: string
  i_socketId :: sid
  i_isHost :: bool
  i_mediaState :: mediaState

datatype msg =
    ErrorMsg string
  | JoinDenied string bool
  | JoinApproved rid bool "request list option" string
  | WaitingForApproval string "bool option" "nat option"
  | JoinRequest uid string sid int
  | JoinRequestProcessed uid string string
  | AllAdmitted nat
  | JoinRequestExpired string
  | ExistingParticipants "participantInfo list"
  | PendingJoinRequests "request list"
  | UserJoined participantInfo
  | UserDisconnected sid uid
  | RequestJoinRoomEcho rid uid string bool
  | OfferMsg string sid string uid "mediaState option"
  | AnswerMsg string sid uid
  | IceCandidateMsg string sid
  | RenegotiationNeeded sid
  | UserMediaToggle sid string bool
  | RecordingStatusChanged bool string sid
  | ReceiveMessage string string sid int
  | TranscriptionUpdate uid string string int int int sid
  | MeetingStartTimeMsg int
  | MeetingEnded string string
  | HostLeft string "string option"
  | UserLeft sid "string option" "uid option" "bool option"

text \<open>An emission is the receiving socket and the event; a handler returns them in
  the order it emits.\<close>

type_synonym out = "sid \<times> msg"

datatype error = TypeError

subsection \<open>socket.io rooms\<close>

definition members :: "hub \<Rightarrow> rid \<Rightarrow> sid list" where
  "members s room = (case map_of (sioRooms s) room of None \<Rightarrow> [] | Some l \<Rightarrow> l)"

definition set_add :: "'a \<Rightarrow> 'a list \<Rightarrow> 'a list" where
  "set_add x xs = (if x \<in> set xs then xs else xs @ [x])"

definition socket_join :: "hub \<Rightarrow> sid \<Rightarrow> rid \<Rightarrow> hub" where
  "socket_join s sock room =
     s\<lparr>sioRooms := AList.update room (set_add sock (members s room)) (sioRooms s)\<rparr>"

definition socket_leave :: "hub \<Rightarrow> sid \<Rightarrow> rid \<Rightarrow> hub" where
  "socket_leave s sock room =
     (case map_of (sioRooms s) room of
        None \<Rightarrow> s
      | Some l \<Rightarrow> s\<lparr>sioRooms := AList.update room (removeAll sock l) (sioRooms s)\<rparr>)"

definition socket_leaveAll :: "hub \<Rightarrow> sid \<Rightarrow> hub" where
  "socket_leaveAll s sock = s\<lparr>sioRooms := map (\<lambda>(room, l). (room, removeAll sock l)) (sioRooms s)\<rparr>"

text \<open>\<^verbatim>\<open>io.to(name).emit\<close> reaches every member of the room of that name and
  \<^verbatim>\<open>socket.to(name).emit\<close> every member but the socket itself. socket.io keeps every
  connected socket in a room named by its own id, and room names and socket ids are the
  same strings: \<^verbatim>\<open>io.to(socketId).emit\<close> is the broadcast to the room of that name. It
  reaches the socket while it is connected, together with any socket that joined a room
  of that name, and nobody once the socket is gone; a \<^verbatim>\<open>null\<close> target reaches nobody.
  \<^verbatim>\<open>socket.emit\<close> goes to the socket itself.\<close>

definition io_to_room :: "hub \<Rightarrow> rid \<Rightarrow> msg \<Rightarrow> out list" where
  "io_to_room s room m = map (\<lambda>t. (t, m)) (members s room)"

definition socket_to_room :: "hub \<Rightarrow> sid \<Rightarrow> rid \<Rightarrow> msg \<Rightarrow> out list" where
  "socket_to_room s sock room m = map (\<lambda>t. (t, m)) (filter (\<lambda>t. t \<noteq> sock) (members s room))"

definition io_to_socket :: "hub \<Rightarrow> sid option \<Rightarrow> msg \<Rightarrow> out list" where
  "io_to_socket s target m = (case target of None \<Rightarrow> [] | Some t \<Rightarrow> io_to_room s t m)"

text \<open>Two call sites guard the emission with \<^verbatim>\<open>if (socketId)\<close>, which is false for
  \<^verbatim>\<open>null\<close> and for the empty string.\<close>

definition io_if_truthy :: "hub \<Rightarrow> sid option \<Rightarrow> msg \<Rightarrow> out list" where
  "io_if_truthy s target m =
     (if target = None \<or> target = Some [] then [] else io_to_socket s target m)"

subsection \<open>Helper functions\<close>

text \<open>\<^verbatim>\<open>String.prototype.trim\<close> removes white space and line terminators at both ends;
  these are the ones among the 8-bit characters.\<close>

definition is_ws :: "char \<Rightarrow> bool" where
  "is_ws c = (c \<in> set [CHR 0x09, CHR 0x0A, CHR 0x0B, CHR 0x0C, CHR 0x0D, CHR 0x20, CHR 0xA0])"

definition trim :: "string \<Rightarrow> string" where
  "trim x = rev (dropWhile is_ws (rev (dropWhile is_ws x)))"

definition normalizeId :: "string \<Rightarrow> string" where
  "normalizeId i = (if i = [] then [] else trim i)"

definition isHost :: "hub \<Rightarrow> rid \<Rightarrow> uid \<Rightarrow> bool" where
  "isHost s room u =
     (case map_of (roomMetadata s) room of
        None \<Rightarrow> False
      | Some md \<Rightarrow> normalizeId (hostUserId md) = normalizeId u)"

definition isApproved :: "hub \<Rightarrow> rid \<Rightarrow> uid \<Rightarrow> bool" where
  "isApproved s room u =
     (case map_of (approvedUsers s) room of
        None \<Rightarrow> False
      | Some approved \<Rightarrow> list_ex (\<lambda>i. normalizeId i = normalizeId u) approved)"

definition isDenied :: "hub \<Rightarrow> rid \<Rightarrow> uid \<Rightarrow> bool" where
  "isDenied s room u =
     (case map_of (deniedUsers s) room of
        None \<Rightarrow> False
      | Some denied \<Rightarrow> list_ex (\<lambda>i. normalizeId i = normalizeId u) (map fst denied))"

definition hasPendingRequest :: "hub \<Rightarrow> int \<Rightarrow> rid \<Rightarrow> uid \<Rightarrow> bool" where
  "hasPendingRequest s now room u =
     (case map_of (pendingJoinRequests s) room of
        None \<Rightarrow> False
      | Some requests \<Rightarrow>
          (case map_of requests u of
             None \<Rightarrow> False
           | Some existingRequest \<Rightarrow> now - requestedAt existingRequest < DEDUP_WINDOW))"

definition getHostSocketId :: "hub \<Rightarrow> rid \<Rightarrow> sid option" where
  "getHostSocketId s room = map_option hostSocketId (map_of (roomMetadata s) room)"

definition updateHostSocketId :: "hub \<Rightarrow> rid \<Rightarrow> sid \<Rightarrow> hub" where
  "updateHostSocketId s room newSocketId =
     (case map_of (roomMetadata s) room of
        None \<Rightarrow> s
      | Some md \<Rightarrow>
          s\<lparr>roomMetadata := AList.update room (md\<lparr>hostSocketId := newSocketId\<rparr>) (roomMetadata s)\<rparr>)"

text \<open>The loops of \<^verbatim>\<open>approveUser\<close>: delete the first key whose normal form is \<open>n\<close>, then
  \<^verbatim>\<open>break\<close>.\<close>

fun deleteFirstNormalized :: "string \<Rightarrow> (uid \<times> 'a) list \<Rightarrow> (uid \<times> 'a) list" where
  "deleteFirstNormalized n [] = []"
| "deleteFirstNormalized n ((k, v) # rest) =
     (if normalizeId k = n then rest else (k, v) # deleteFirstNormalized n rest)"

definition approveUser :: "hub \<Rightarrow> rid \<Rightarrow> uid \<Rightarrow> hub" where
  "approveUser s room u =
     (let normalizedId = normalizeId u;
          approved = (case map_of (approvedUsers s) room of None \<Rightarrow> [] | Some a \<Rightarrow> a);
          s1 = s\<lparr>approvedUsers := AList.update room (set_add normalizedId approved) (approvedUsers s)\<rparr>;
          s2 = (case map_of (pendingJoinRequests s1) room of
                  None \<Rightarrow> s1
                | Some requests \<Rightarrow>
                    s1\<lparr>pendingJoinRequests :=
                         AList.update room (deleteFirstNormalized normalizedId requests)
                           (pendingJoinRequests s1)\<rparr>)
      in (case map_of (deniedUsers s2) room of
            None \<Rightarrow> s2
          | Some denied \<Rightarrow>
              s2\<lparr>deniedUsers :=
                   AList.update room (deleteFirstNormalized normalizedId denied) (deniedUsers s2)\<rparr>))"

definition denyUser :: "hub \<Rightarrow> int \<Rightarrow> rid \<Rightarrow> uid \<Rightarrow> string \<Rightarrow> hub" where
  "denyUser s now room u why =
     (let denied = (case map_of (deniedUsers s) room of None \<Rightarrow> [] | Some d \<Rightarrow> d);
          s1 = s\<lparr>deniedUsers :=
                  AList.update room (AList.update u \<lparr>deniedAt = now, reason = why\<rparr> denied)
                    (deniedUsers s)\<rparr>
      in (case map_of (pendingJoinRequests s1) room of
            None \<Rightarrow> s1
          | Some requests \<Rightarrow>
              s1\<lparr>pendingJoinRequests :=
                   AList.update room (AList.delete u requests) (pendingJoinRequests s1)\<rparr>))"

definition cleanupRoom :: "hub \<Rightarrow> rid \<Rightarrow> hub" where
  "cleanupRoom s room =
     s\<lparr>rooms := AList.delete room (rooms s),
       roomMetadata := AList.delete room (roomMetadata s),
       approvedUsers := AList.delete room (approvedUsers s),
       pendingJoinRequests := AList.delete room (pendingJoinRequests s),
       deniedUsers := AList.delete room (deniedUsers s)\<rparr>"

definition getPendingRequests :: "hub \<Rightarrow> int \<Rightarrow> rid \<Rightarrow> request list" where
  "getPendingRequests s now room =
     (case map_of (pendingJoinRequests s) room of
        None \<Rightarrow> []
      | Some requests \<Rightarrow> filter (\<lambda>req. now - requestedAt req < REQUEST_TIMEOUT) (map snd requests))"

text \<open>The loop of \<^verbatim>\<open>cleanupExpiredRequests\<close> over the entries of one room: an entry
  whose age exceeds the timeout is deleted and its socket, if stored, is told.\<close>

fun expireRequests ::
  "hub \<Rightarrow> int \<Rightarrow> (uid \<times> request) list \<Rightarrow> (uid \<times> request) list \<times> out list" where
  "expireRequests s now [] = ([], [])"
| "expireRequests s now ((u, req) # rest) =
     (if now - requestedAt req > REQUEST_TIMEOUT
      then (fst (expireRequests s now rest),
            io_if_truthy s (r_socketId req)
              (JoinRequestExpired ''Your join request has expired. Please try again.'')
            @ snd (expireRequests s now rest))
      else ((u, req) # fst (expireRequests s now rest), snd (expireRequests s now rest)))"

definition cleanupExpiredRequests :: "hub \<Rightarrow> int \<Rightarrow> rid \<Rightarrow> hub \<times> out list" where
  "cleanupExpiredRequests s now room =
     (case map_of (pendingJoinRequests s) room of
        None \<Rightarrow> (s, [])
      | Some requests \<Rightarrow>
          (s\<lparr>pendingJoinRequests :=
               AList.update room (fst (expireRequests s now requests)) (pendingJoinRequests s)\<rparr>,
           snd (expireRequests s now requests)))"

text \<open>The body of the \<^verbatim>\<open>setInterval\<close> callback, run every 60000 ms: every key of
  \<^verbatim>\<open>pendingJoinRequests\<close> in turn.\<close>

fun sweepRooms :: "hub \<Rightarrow> int \<Rightarrow> rid list \<Rightarrow> hub \<times> out list" where
  "sweepRooms s now [] = (s, [])"
| "sweepRooms s now (room # others) =
     (let r1 = cleanupExpiredRequests s now room;
          r2 = sweepRooms (fst r1) now others
      in (fst r2, snd r1 @ snd r2))"

definition sweeper_tick :: "hub \<Rightarrow> int \<Rightarrow> hub \<times> out list" where
  "sweeper_tick s now = sweepRooms s now (map fst (pendingJoinRequests s))"

subsection \<open>Admission control\<close>

text \<open>The lookup loop of the approve and deny handlers: the first entry whose key has the
  normal form \<open>n\<close>.\<close>

fun findNormalized :: "string \<Rightarrow> (uid \<times> 'a) list \<Rightarrow> (uid \<times> 'a) option" where
  "findNormalized n [] = None"
| "findNormalized n ((k, v) # rest) =
     (if normalizeId k = n then Some (k, v) else findNormalized n rest)"

text \<open>\<^verbatim>\<open>socket.on('request-join-room')\<close>. A denied user whose record is stored under
  another spelling of the id makes \<^verbatim>\<open>denied.reason\<close> read a property of
  \<^verbatim>\<open>undefined\<close>, which throws.\<close>

definition request_join_room ::
  "hub \<Rightarrow> sid \<Rightarrow> int \<Rightarrow> rid \<Rightarrow> uid \<Rightarrow> string \<Rightarrow> bool \<Rightarrow> error + hub \<times> out list" where
  "request_join_room s sock now room u userName isRejoin =
     (let s0 = s\<lparr>socketUserMap :=
                  AList.update sock \<lparr>su_oduserId = u, su_userName = Some userName, su_roomId = room\<rparr>
                    (socketUserMap s)\<rparr>
      in if isDenied s0 room u then
           (case map_of (case map_of (deniedUsers s0) room of None \<Rightarrow> [] | Some d \<Rightarrow> d) u of
              None \<Rightarrow> Inl TypeError
            | Some denied \<Rightarrow>
                Inr (s0, [(sock, JoinDenied
                   (if reason denied = [] then ''You have been denied access to this meeting.''
                    else reason denied) False)]))
         else (case map_of (roomMetadata s0) room of
           None \<Rightarrow>
             (let s1 = s0\<lparr>roomMetadata :=
                          AList.update room
                            \<lparr>hostUserId = u, hostSocketId = sock, createdAt = now,
                             waitingRoomEnabled = True, meetingStartTime = None\<rparr>
                            (roomMetadata s0)\<rparr>;
                  s2 = approveUser s1 room u
              in Inr (s2, [(sock, JoinApproved room True None ''You are the host of this meeting.'')]))
         | Some md \<Rightarrow>
             if isHost s0 room u then
               (let s1 = updateHostSocketId s0 room sock;
                    s2 = approveUser s1 room u;
                    pendingRequests = getPendingRequests s2 now room
                in Inr (s2, [(sock, JoinApproved room True (Some pendingRequests)
                                      ''Welcome back! You are the host.'')]))
             else if isApproved s0 room u then
               Inr (s0, [(sock, JoinApproved room False None
                                  (if isRejoin then ''Reconnected successfully.''
                                   else ''You have been approved to join.''))])
             else if hasPendingRequest s0 now room u then
               Inr (s0, [(sock, WaitingForApproval
                                  ''Your request is pending. Please wait for the host to admit you.''
                                  (Some True) None)])
             else
               (let requests = (case map_of (pendingJoinRequests s0) room of
                                  None \<Rightarrow> [] | Some r \<Rightarrow> r);
                    req = \<lparr>r_oduserId = u, r_userName = userName, r_socketId = Some sock,
                           requestedAt = now, status = ''pending''\<rparr>;
                    requests' = AList.update u req requests;
                    s1 = s0\<lparr>pendingJoinRequests :=
                              AList.update room requests' (pendingJoinRequests s0)\<rparr>
                in Inr (s1,
                     (sock, WaitingForApproval ''Waiting for the host to admit you...''
                              None (Some (length requests')))
                     # io_if_truthy s1 (getHostSocketId s1 room)
                         (JoinRequest u userName sock now)))))"

text \<open>The host check shared by the three host-only handlers:
  \<^verbatim>\<open>approverUserId && normalizeId(approverUserId) === normalizeId(metadata.hostUserId)\<close>.\<close>

definition approverIsHost :: "metadata \<Rightarrow> uid \<Rightarrow> bool" where
  "approverIsHost md approverUserId =
     (approverUserId \<noteq> [] \<and> normalizeId approverUserId = normalizeId (hostUserId md))"

definition registerApprover :: "hub \<Rightarrow> sid \<Rightarrow> rid \<Rightarrow> uid \<Rightarrow> hub" where
  "registerApprover s sock room approverUserId =
     (let s1 = updateHostSocketId s room sock
      in s1\<lparr>socketUserMap :=
              AList.update sock \<lparr>su_oduserId = approverUserId, su_userName = None, su_roomId = room\<rparr>
                (socketUserMap s1)\<rparr>)"

definition deletePending :: "hub \<Rightarrow> rid \<Rightarrow> uid \<Rightarrow> hub" where
  "deletePending s room key =
     (case map_of (pendingJoinRequests s) room of
        None \<Rightarrow> s
      | Some requests \<Rightarrow>
          s\<lparr>pendingJoinRequests :=
               AList.update room (AList.delete key requests) (pendingJoinRequests s)\<rparr>)"

text \<open>\<^verbatim>\<open>socket.on('approve-join-request')\<close>.\<close>

definition approve_join_request :: "hub \<Rightarrow> sid \<Rightarrow> rid \<Rightarrow> uid \<Rightarrow> uid \<Rightarrow> hub \<times> out list" where
  "approve_join_request s sock room u approverUserId =
     (case map_of (roomMetadata s) room of
        None \<Rightarrow> (s, [(sock, ErrorMsg ''Room not found.'')])
      | Some md \<Rightarrow>
          if \<not> approverIsHost md approverUserId then
            (s, [(sock, ErrorMsg ''Only the host can approve join requests.'')])
          else
            (let s1 = socket_join (registerApprover s sock room approverUserId) sock room;
                 requests = (case map_of (pendingJoinRequests s1) room of None \<Rightarrow> [] | Some r \<Rightarrow> r)
             in (case findNormalized (normalizeId u) requests of
                   None \<Rightarrow> (s1, [(sock, ErrorMsg ''Join request not found or already processed.'')])
                 | Some (requestKey, req) \<Rightarrow>
                     (let s2 = approveUser s1 room u;
                          s3 = (if requestKey \<noteq> [] then deletePending s2 room requestKey else s2)
                      in (s3,
                          io_to_socket s3 (r_socketId req)
                            (JoinApproved room False None ''The host has admitted you to the meeting.'')
                          @ [(sock, JoinRequestProcessed u (r_userName req) ''approved'')])))))"

text \<open>\<^verbatim>\<open>socket.on('deny-join-request')\<close>; an empty \<open>why\<close> is a missing or falsy reason.\<close>

definition deny_join_request ::
  "hub \<Rightarrow> sid \<Rightarrow> int \<Rightarrow> rid \<Rightarrow> uid \<Rightarrow> string \<Rightarrow> uid \<Rightarrow> hub \<times> out list" where
  "deny_join_request s sock now room u why approverUserId =
     (case map_of (roomMetadata s) room of
        None \<Rightarrow> (s, [(sock, ErrorMsg ''Room not found.'')])
      | Some md \<Rightarrow>
          if \<not> approverIsHost md approverUserId then
            (s, [(sock, ErrorMsg ''Only the host can deny join requests.'')])
          else
            (let s1 = registerApprover s sock room approverUserId;
                 requests = (case map_of (pendingJoinRequests s1) room of None \<Rightarrow> [] | Some r \<Rightarrow> r)
             in (case findNormalized (normalizeId u) requests of
                   None \<Rightarrow> (s1, [(sock, ErrorMsg ''Join request not found or already processed.'')])
                 | Some (requestKey, req) \<Rightarrow>
                     (let denyReason = (if why = [] then ''The host has denied your request to join.''
                                        else why);
                          s2 = denyUser s1 now room u denyReason;
                          s3 = (if requestKey \<noteq> [] then deletePending s2 room requestKey else s2)
                      in (s3,
                          io_to_socket s3 (r_socketId req) (JoinDenied denyReason False)
                          @ [(sock, JoinRequestProcessed u (r_userName req) ''denied'')])))))"

text \<open>The loop of \<^verbatim>\<open>admit-all-waiting\<close> runs over the live map while \<^verbatim>\<open>approveUser\<close>
  deletes from it; a \<^verbatim>\<open>Map\<close> iterator skips an entry deleted before it is reached.\<close>

fun admitLoop :: "hub \<Rightarrow> rid \<Rightarrow> (uid \<times> request) list \<Rightarrow> hub \<times> out list" where
  "admitLoop s room [] = (s, [])"
| "admitLoop s room ((u, req) # rest) =
     (if map_of (case map_of (pendingJoinRequests s) room of None \<Rightarrow> [] | Some r \<Rightarrow> r) u = None
      then admitLoop s room rest
      else (let r = admitLoop (approveUser s room u) room rest
            in (fst r,
                io_to_socket (approveUser s room u) (r_socketId req)
                  (JoinApproved room False None ''The host has admitted you to the meeting.'')
                @ snd r)))"

definition admit_all_waiting :: "hub \<Rightarrow> sid \<Rightarrow> rid \<Rightarrow> uid \<Rightarrow> hub \<times> out list" where
  "admit_all_waiting s sock room approverUserId =
     (case map_of (roomMetadata s) room of
        None \<Rightarrow> (s, [(sock, ErrorMsg ''Room not found.'')])
      | Some md \<Rightarrow>
          if \<not> approverIsHost md approverUserId then
            (s, [(sock, ErrorMsg ''Only the host can admit all users.'')])
          else
            (let s1 = registerApprover s sock room approverUserId
             in (case map_of (pendingJoinRequests s1) room of
                   None \<Rightarrow> (s1, [(sock, ErrorMsg ''No pending requests.'')])
                 | Some requests \<Rightarrow>
                     if requests = [] then (s1, [(sock, ErrorMsg ''No pending requests.'')])
                     else
                       (let admittedCount = length requests;
                            r = admitLoop s1 room requests;
                            s2 = (fst r)\<lparr>pendingJoinRequests :=
                                     AList.update room [] (pendingJoinRequests (fst r))\<rparr>
                        in (s2, snd r @ [(sock, AllAdmitted admittedCount)])))))"

subsection \<open>Joining and leaving\<close>

definition findOldSocket :: "sid \<Rightarrow> uid \<Rightarrow> (sid \<times> participant) list \<Rightarrow> sid option" where
  "findOldSocket sock u room =
     map_option fst
       (find (\<lambda>(socketId, d). normalizeId (p_oduserId d) = normalizeId u \<and> socketId \<noteq> sock) room)"

definition toInfo :: "participant \<Rightarrow> participantInfo" where
  "toInfo p = \<lparr>i_oduserId = p_oduserId p, i_userName = p_userName p, i_socketId = p_socketId p,
              i_isHost = p_isHost p, i_mediaState = p_mediaState p\<rparr>"

definition defaultMedia :: "mediaState option \<Rightarrow> mediaState" where
  "defaultMedia m = (case m of None \<Rightarrow> \<lparr>audio = True, video = True\<rparr> | Some x \<Rightarrow> x)"

text \<open>\<^verbatim>\<open>socket.on('join-room')\<close>.\<close>

definition join_room ::
  "hub \<Rightarrow> sid \<Rightarrow> int \<Rightarrow> rid \<Rightarrow> uid \<Rightarrow> string \<Rightarrow> mediaState option \<Rightarrow> hub \<times> out list" where
  "join_room s sock now room u userName media =
     (if \<not> isApproved s room u \<and> \<not> isHost s room u then
        (s, [(sock, ErrorMsg ''You are not approved to join this meeting.'')])
      else
        (let oldSocketId = (case map_of (rooms s) room of
                              None \<Rightarrow> None | Some r \<Rightarrow> findOldSocket sock u r);
             s1 = socket_join s sock room;
             s2 = (if map_of (rooms s1) room = None
                   then s1\<lparr>rooms := AList.update room [] (rooms s1)\<rparr> else s1);
             out1 = (case oldSocketId of
                       None \<Rightarrow> []
                     | Some old \<Rightarrow> socket_to_room s2 sock room (UserDisconnected old u));
             room1 = (case map_of (rooms s2) room of None \<Rightarrow> [] | Some r \<Rightarrow> r);
             room2 = (case oldSocketId of None \<Rightarrow> room1 | Some old \<Rightarrow> AList.delete old room1);
             userIsHost = isHost s2 room u;
             s3 = (if userIsHost then updateHostSocketId s2 room sock else s2);
             room3 = AList.update sock
                       \<lparr>p_oduserId = u, p_userName = userName, p_socketId = sock,
                        p_isHost = userIsHost, p_mediaState = defaultMedia media,
                        p_joinedAt = now\<rparr> room2;
             s4 = s3\<lparr>rooms := AList.update room room3 (rooms s3)\<rparr>;
             otherParticipants = map toInfo (filter (\<lambda>p. p_socketId p \<noteq> sock) (map snd room3));
             pendingRequests = getPendingRequests s4 now room
         in (s4,
             out1
             @ [(sock, ExistingParticipants otherParticipants)]
             @ (if userIsHost \<and> pendingRequests \<noteq> []
                then [(sock, PendingJoinRequests pendingRequests)] else [])
             @ socket_to_room s4 sock room
                 (UserJoined \<lparr>i_oduserId = u, i_userName = userName, i_socketId = sock,
                              i_isHost = userIsHost, i_mediaState = defaultMedia media\<rparr>))))"

text \<open>\<^verbatim>\<open>socket.on('rejoin-room')\<close> sends a \<^verbatim>\<open>request-join-room\<close> event to its own client.\<close>

definition rejoin_room :: "hub \<Rightarrow> sid \<Rightarrow> rid \<Rightarrow> uid \<Rightarrow> string \<Rightarrow> hub \<times> out list" where
  "rejoin_room s sock room u userName = (s, [(sock, RequestJoinRoomEcho room u userName True)])"

definition update_waiting_socket :: "hub \<Rightarrow> sid \<Rightarrow> rid \<Rightarrow> uid \<Rightarrow> hub \<times> out list" where
  "update_waiting_socket s sock room u =
     (case map_of (pendingJoinRequests s) room of
        None \<Rightarrow> (s, [])
      | Some requests \<Rightarrow>
          (case map_of requests u of
             None \<Rightarrow> (s, [])
           | Some req \<Rightarrow>
               (s\<lparr>pendingJoinRequests :=
                    AList.update room (AList.update u (req\<lparr>r_socketId := Some sock\<rparr>) requests)
                      (pendingJoinRequests s)\<rparr>, [])))"

text \<open>\<^verbatim>\<open>handleUserLeave\<close>. The host test is \<^verbatim>\<open>metadata && metadata.hostUserId === oduserId\<close>,
  which is \<^verbatim>\<open>undefined\<close> without metadata.\<close>

definition handleUserLeave :: "hub \<Rightarrow> sid \<Rightarrow> rid \<Rightarrow> uid \<Rightarrow> hub \<times> out list" where
  "handleUserLeave s sock room u =
     (case map_of (rooms s) room of
        None \<Rightarrow> (s, [])
      | Some r \<Rightarrow>
          (let userData = map_of r sock;
               r' = AList.delete sock r;
               s1 = s\<lparr>rooms := AList.update room r' (rooms s)\<rparr>;
               wasHost = map_option (\<lambda>md. hostUserId md = u) (map_of (roomMetadata s1) room);
               s2 = (if r' = [] then cleanupRoom s1 room else s1);
               out1 = (if r' \<noteq> [] \<and> wasHost = Some True
                       then io_to_room s2 room
                              (HostLeft ''The host has left the meeting.''
                                 (map_option p_userName userData))
                       else []);
               out2 = socket_to_room s2 sock room
                        (UserLeft sock (map_option p_userName userData)
                           (if u \<noteq> [] then Some u else map_option p_oduserId userData) wasHost)
           in (socket_leave s2 sock room, out1 @ out2)))"

definition leave_room :: "hub \<Rightarrow> sid \<Rightarrow> rid \<Rightarrow> uid \<Rightarrow> hub \<times> out list" where
  "leave_room s sock room u = handleUserLeave s sock room u"

text \<open>\<^verbatim>\<open>socket.on('end-meeting')\<close>.\<close>

definition end_meeting :: "hub \<Rightarrow> sid \<Rightarrow> rid \<Rightarrow> hub \<times> out list" where
  "end_meeting s sock room =
     (case map_of (roomMetadata s) room of
        None \<Rightarrow> (s, [])
      | Some md \<Rightarrow>
          (case (case map_of (rooms s) room of None \<Rightarrow> None | Some r \<Rightarrow> map_of r sock) of
             None \<Rightarrow> (s, [(sock, ErrorMsg ''Only the host can end the meeting.'')])
           | Some userData \<Rightarrow>
               if p_oduserId userData \<noteq> hostUserId md then
                 (s, [(sock, ErrorMsg ''Only the host can end the meeting.'')])
               else
                 (cleanupRoom s room,
                  io_to_room s room
                    (MeetingEnded ''The host has ended the meeting.'' (p_userName userData))
                  @ concat (map (\<lambda>(k, req). io_to_socket s (r_socketId req)
                                   (MeetingEnded ''The meeting has ended.'' (p_userName userData)))
                       (case map_of (pendingJoinRequests s) room of None \<Rightarrow> [] | Some q \<Rightarrow> q)))))"

text \<open>\<^verbatim>\<open>socket.on('disconnect')\<close>. socket.io has taken the socket out of all its rooms when
  the handler runs. The \<^verbatim>\<open>forEach\<close> over \<^verbatim>\<open>rooms\<close> skips a room deleted before it is
  reached.\<close>

definition markStale :: "sid \<Rightarrow> (uid \<times> request) list \<Rightarrow> (uid \<times> request) list" where
  "markStale sock requests =
     map (\<lambda>(k, req). (k, if r_socketId req = Some sock then req\<lparr>r_socketId := None\<rparr> else req))
       requests"

fun leaveRooms :: "hub \<Rightarrow> sid \<Rightarrow> rid list \<Rightarrow> hub \<times> out list" where
  "leaveRooms s sock [] = (s, [])"
| "leaveRooms s sock (room # others) =
     (case (case map_of (rooms s) room of None \<Rightarrow> None | Some r \<Rightarrow> map_of r sock) of
        None \<Rightarrow> leaveRooms s sock others
      | Some userData \<Rightarrow>
          (let r1 = handleUserLeave s sock room (p_oduserId userData);
               r2 = leaveRooms (fst r1) sock others
           in (fst r2, snd r1 @ snd r2)))"

definition disconnect :: "hub \<Rightarrow> sid \<Rightarrow> hub \<times> out list" where
  "disconnect s sock =
     (let s0 = socket_leaveAll s sock;
          s1 = s0\<lparr>pendingJoinRequests :=
                   map (\<lambda>(room, requests). (room, markStale sock requests))
                     (pendingJoinRequests s0)\<rparr>
      in leaveRooms s1 sock (map fst (rooms s1)))"

subsection \<open>Signaling relay and side channels\<close>

text \<open>The four relays are \<^verbatim>\<open>io.to(to).emit\<close>: a broadcast to the room named \<open>to\<close>, which
  the client chooses freely.\<close>

definition offer ::
  "hub \<Rightarrow> sid \<Rightarrow> string \<Rightarrow> sid \<Rightarrow> sid \<Rightarrow> string \<Rightarrow> uid \<Rightarrow> mediaState option \<Rightarrow> hub \<times> out list" where
  "offer s sock sdp to from userName u media =
     (s, io_to_room s to (OfferMsg sdp from userName u media))"

definition answer :: "hub \<Rightarrow> sid \<Rightarrow> string \<Rightarrow> sid \<Rightarrow> sid \<Rightarrow> uid \<Rightarrow> hub \<times> out list" where
  "answer s sock sdp to from u = (s, io_to_room s to (AnswerMsg sdp from u))"

definition ice_candidate :: "hub \<Rightarrow> sid \<Rightarrow> string \<Rightarrow> sid \<Rightarrow> sid \<Rightarrow> hub \<times> out list" where
  "ice_candidate s sock candidate to from =
     (s, io_to_room s to (IceCandidateMsg candidate from))"

definition request_renegotiation :: "hub \<Rightarrow> sid \<Rightarrow> sid \<Rightarrow> sid \<Rightarrow> hub \<times> out list" where
  "request_renegotiation s sock to from = (s, io_to_room s to (RenegotiationNeeded from))"

text \<open>\<^verbatim>\<open>socket.on('toggle-media')\<close>.\<close>

definition toggle_media :: "hub \<Rightarrow> sid \<Rightarrow> rid \<Rightarrow> string \<Rightarrow> bool \<Rightarrow> hub \<times> out list" where
  "toggle_media s sock room type enabled =
     (let s1 = (case map_of (rooms s) room of
                  None \<Rightarrow> s
                | Some r \<Rightarrow>
                    (case map_of r sock of
                       None \<Rightarrow> s
                     | Some userData \<Rightarrow>
                         if type = ''audio'' then
                           s\<lparr>rooms := AList.update room
                               (AList.update sock
                                  (userData\<lparr>p_mediaState := (p_mediaState userData)\<lparr>audio := enabled\<rparr>\<rparr>) r)
                               (rooms s)\<rparr>
                         else if type = ''video'' then
                           s\<lparr>rooms := AList.update room
                               (AList.update sock
                                  (userData\<lparr>p_mediaState := (p_mediaState userData)\<lparr>video := enabled\<rparr>\<rparr>) r)
                               (rooms s)\<rparr>
                         else s))
      in (s1, socket_to_room s1 sock room (UserMediaToggle sock type enabled)))"

definition recording_status :: "hub \<Rightarrow> sid \<Rightarrow> rid \<Rightarrow> bool \<Rightarrow> string \<Rightarrow> hub \<times> out list" where
  "recording_status s sock room isRecording userName =
     (s, socket_to_room s sock room (RecordingStatusChanged isRecording userName sock))"

definition send_message :: "hub \<Rightarrow> sid \<Rightarrow> int \<Rightarrow> rid \<Rightarrow> string \<Rightarrow> string \<Rightarrow> hub \<times> out list" where
  "send_message s sock now room message userName =
     (s, io_to_room s room (ReceiveMessage message userName sock now))"

text \<open>\<^verbatim>\<open>socket.on('transcription-entry')\<close>.\<close>

definition transcription_entry ::
  "hub \<Rightarrow> sid \<Rightarrow> rid \<Rightarrow> uid \<Rightarrow> string \<Rightarrow> string \<Rightarrow> int \<Rightarrow> int \<Rightarrow> int \<Rightarrow> hub \<times> out list" where
  "transcription_entry s sock room userId userName txt timestamp secondsIntoMeeting confidence =
     (s, io_to_room s room
           (TranscriptionUpdate userId userName txt timestamp secondsIntoMeeting confidence sock))"

text \<open>The start time is a number (the client sends \<^verbatim>\<open>Date.now()\<close>); the handlers test it
  for truthiness, and \<open>0\<close> is falsy like an absent field.\<close>

definition truthy :: "int option \<Rightarrow> bool" where
  "truthy t = (case t of None \<Rightarrow> False | Some v \<Rightarrow> v \<noteq> 0)"

definition request_meeting_start_time :: "hub \<Rightarrow> sid \<Rightarrow> rid \<Rightarrow> hub \<times> out list" where
  "request_meeting_start_time s sock room =
     (case map_of (roomMetadata s) room of
        None \<Rightarrow> (s, [])
      | Some md \<Rightarrow>
          (case meetingStartTime md of
             None \<Rightarrow> (s, [])
           | Some t \<Rightarrow> if t \<noteq> 0 then (s, [(sock, MeetingStartTimeMsg t)]) else (s, [])))"

definition set_meeting_start_time :: "hub \<Rightarrow> sid \<Rightarrow> rid \<Rightarrow> int \<Rightarrow> hub \<times> out list" where
  "set_meeting_start_time s sock room startTime =
     (case map_of (roomMetadata s) room of
        None \<Rightarrow> (s, [])
      | Some md \<Rightarrow>
          if \<not> truthy (meetingStartTime md) then
            (s\<lparr>roomMetadata :=
                 AList.update room (md\<lparr>meetingStartTime := Some startTime\<rparr>) (roomMetadata s)\<rparr>, [])
          else (s, []))"

subsection \<open>The hub as a transition system\<close>

datatype client_event =
    RequestJoinRoom rid uid string bool
  | ApproveJoinRequest rid uid uid
  | DenyJoinRequest rid uid string uid
  | AdmitAllWaiting rid uid
  | JoinRoom rid uid string "mediaState option"
  | RejoinRoom rid uid string
  | UpdateWaitingSocket rid uid
  | Offer string sid sid string uid "mediaState option"
  | Answer string sid sid uid
  | IceCandidate string sid sid
  | RequestRenegotiation sid sid
  | ToggleMedia rid string bool
  | RecordingStatus rid bool string
  | SendMessage rid string string
  | TranscriptionEntry rid uid string string int int int
  | RequestMeetingStartTime rid
  | SetMeetingStartTime rid int
  | LeaveRoom rid uid
  | EndMeeting rid
  | Disconnect

text \<open>Besides the client's events there are the connection of a socket, which puts
  it into the room named by its id before \<^verbatim>\<open>io.on('connection')\<close> registers the
  handlers, and the tick of the sweeper.\<close>

datatype event = Connection sid | FromSocket sid client_event | SweeperTick

fun handle :: "hub \<Rightarrow> sid \<Rightarrow> int \<Rightarrow> client_event \<Rightarrow> error + hub \<times> out list" where
  "handle s sock now (RequestJoinRoom room u userName isRejoin) =
     request_join_room s sock now room u userName isRejoin"
| "handle s sock now (ApproveJoinRequest room u approverUserId) =
     Inr (approve_join_request s sock room u approverUserId)"
| "handle s sock now (DenyJoinRequest room u why approverUserId) =
     Inr (deny_join_request s sock now room u why approverUserId)"
| "handle s sock now (AdmitAllWaiting room approverUserId) =
     Inr (admit_all_waiting s sock room approverUserId)"
| "handle s sock now (JoinRoom room u userName media) =
     Inr (join_room s sock now room u userName media)"
| "handle s sock now (RejoinRoom room u userName) = Inr (rejoin_room s sock room u userName)"
| "handle s sock now (UpdateWaitingSocket room u) = Inr (update_waiting_socket s sock room u)"
| "handle s sock now (Offer sdp to from userName u media) =
     Inr (offer s sock sdp to from userName u media)"
| "handle s sock now (Answer sdp to from u) = Inr (answer s sock sdp to from u)"
| "handle s sock now (IceCandidate candidate to from) =
     Inr (ice_candidate s sock candidate to from)"
| "handle s sock now (RequestRenegotiation to from) = Inr (request_renegotiation s sock to from)"
| "handle s sock now (ToggleMedia room type enabled) = Inr (toggle_media s sock room type enabled)"
| "handle s sock now (RecordingStatus room isRecording userName) =
     Inr (recording_status s sock room isRecording userName)"
| "handle s sock now (SendMessage room message userName) =
     Inr (send_message s sock now room message userName)"
| "handle s sock now (TranscriptionEntry room userId userName txt timestamp secs confidence) =
     Inr (transcription_entry s sock room userId userName txt timestamp secs confidence)"
| "handle s sock now (RequestMeetingStartTime room) = Inr (request_meeting_start_time s sock room)"
| "handle s sock now (SetMeetingStartTime room startTime) =
     Inr (set_meeting_start_time s sock room startTime)"
| "handle s sock now (LeaveRoom room u) = Inr (leave_room s sock room u)"
| "handle s sock now (EndMeeting room) = Inr (end_meeting s sock room)"
| "handle s sock now Disconnect = Inr (disconnect s sock)"

fun step :: "hub \<Rightarrow> int \<Rightarrow> event \<Rightarrow> error + hub \<times> out list" where
  "step s now (Connection sock) = Inr (socket_join s sock sock, [])"
| "step s now (FromSocket sock e) = handle s sock now e"
| "step s now SweeperTick = Inr (sweeper_tick s now)"

text \<open>A run from a state: the events with the clock reading at each; an uncaught exception
  ends it. Runs and reachable states do not insist that the socket of an event is
  connected, so they cover every state the server can be in and more.\<close>

fun run :: "hub \<Rightarrow> (int \<times> event) list \<Rightarrow> error + hub \<times> out list" where
  "run s [] = Inr (s, [])"
| "run s ((now, e) # es) =
     (case step s now e of
        Inl err \<Rightarrow> Inl err
      | Inr (s', out1) \<Rightarrow>
          (case run s' es of
             Inl err \<Rightarrow> Inl err
           | Inr (s'', out2) \<Rightarrow> Inr (s'', out1 @ out2)))"

inductive reachable :: "hub \<Rightarrow> bool" where
  reachable_init: "reachable init_hub"
| reachable_step: "reachable s \<Longrightarrow> step s now e = Inr (s', out) \<Longrightarrow> reachable s'"


subsection \<open>Example runs\<close>

text \<open>Two connected sockets and no room.\<close>

definition lobby_events :: "(int \<times> event) list" where
  "lobby_events = [(0, Connection ''S1''), (0, Connection ''S2'')]"

definition lobby :: hub where
  "lobby = init_hub\<lparr>sioRooms := [(''S1'', [''S1'']), (''S2'', [''S2''])]\<rparr>"

text \<open>A waiting room: Ann opens room R on socket A and joins it; Gil asks to join on
  socket G at time 1000 and waits.\<close>

definition waiting_events :: "(int \<times> event) list" where
  "waiting_events =
    [(0, Connection ''A''),
     (0, FromSocket ''A'' (RequestJoinRoom ''R'' ''ua'' ''Ann'' False)),
     (1, FromSocket ''A'' (JoinRoom ''R'' ''ua'' ''Ann'' None)),
     (999, Connection ''G''),
     (1000, FromSocket ''G'' (RequestJoinRoom ''R'' ''ug'' ''Gil'' False))]"

definition waiting_md :: metadata where
  "waiting_md = \<lparr>hostUserId = ''ua'', hostSocketId = ''A'', createdAt = 0,
                  waitingRoomEnabled = True, meetingStartTime = None\<rparr>"

definition ann :: participant where
  "ann = \<lparr>p_oduserId = ''ua'', p_userName = ''Ann'', p_socketId = ''A'', p_isHost = True,
           p_mediaState = \<lparr>audio = True, video = True\<rparr>, p_joinedAt = 1\<rparr>"

definition waiting_room :: hub where
  "waiting_room =
     \<lparr>rooms = [(''R'', [(''A'', ann)])],
      roomMetadata = [(''R'', waiting_md)],
      approvedUsers = [(''R'', [''ua''])],
      pendingJoinRequests =
        [(''R'',
          [(''ug'', \<lparr>r_oduserId = ''ug'', r_userName = ''Gil'', r_socketId = Some ''G'',
                     requestedAt = 1000, status = ''pending''\<rparr>)])],
      deniedUsers = [],
      socketUserMap =
        [(''A'', \<lparr>su_oduserId = ''ua'', su_userName = Some ''Ann'', su_roomId = ''R''\<rparr>),
         (''G'', \<lparr>su_oduserId = ''ug'', su_userName = Some ''Gil'', su_roomId = ''R''\<rparr>)],
      sioRooms = [(''A'', [''A'']), (''R'', [''A'']), (''G'', [''G''])]\<rparr>"


definition bob :: participant where
  "bob = \<lparr>p_oduserId = ''ub'', p_userName = ''Bob'', p_socketId = ''B'', p_isHost = False,
           p_mediaState = \<lparr>audio = True, video = True\<rparr>, p_joinedAt = 4\<rparr>"

definition meeting_room :: hub where
  "meeting_room =
     \<lparr>rooms = [(''R'', [(''A'', ann), (''B'', bob)])],
      roomMetadata = [(''R'', waiting_md)],
      approvedUsers = [(''R'', [''ua'', ''ub''])],
      pendingJoinRequests = [(''R'', [])],
      deniedUsers = [],
      socketUserMap =
        [(''A'', \<lparr>su_oduserId = ''ua'', su_userName = None, su_roomId = ''R''\<rparr>),
         (''B'', \<lparr>su_oduserId = ''ub'', su_userName = Some ''Bob'', su_roomId = ''R''\<rparr>)],
      sioRooms = [(''A'', [''A'']), (''R'', [''A'', ''B'']), (''B'', [''B''])]\<rparr>"

text \<open>Two spellings of one user id: Ann hosts room R; a guest asks to join as \<open>''a ''\<close>
  and as \<open>''a''\<close>, and Ann approves \<open>''a''\<close>.\<close>

definition spelling_events :: "(int \<times> event) list" where
  "spelling_events =
    [(0, Connection ''A''),
     (0, FromSocket ''A'' (RequestJoinRoom ''R'' ''ua'' ''Ann'' False)),
     (1, FromSocket ''A'' (JoinRoom ''R'' ''ua'' ''Ann'' None)),
     (2, Connection ''G1''),
     (2, FromSocket ''G1'' (RequestJoinRoom ''R'' ''a '' ''Gil'' False)),
     (3, Connection ''G2''),
     (3, FromSocket ''G2'' (RequestJoinRoom ''R'' ''a'' ''Gil'' False)),
     (4, FromSocket ''A'' (ApproveJoinRequest ''R'' ''a'' ''ua''))]"

definition spelling_state :: hub where
  "spelling_state =
     \<lparr>rooms = [(''R'', [(''A'', ann)])],
      roomMetadata = [(''R'', waiting_md)],
      approvedUsers = [(''R'', [''ua'', ''a''])],
      pendingJoinRequests =
        [(''R'',
          [(''a'', \<lparr>r_oduserId = ''a'', r_userName = ''Gil'', r_socketId = Some ''G2'',
                    requestedAt = 3, status = ''pending''\<rparr>)])],
      deniedUsers = [],
      socketUserMap =
        [(''A'', \<lparr>su_oduserId = ''ua'', su_userName = None, su_roomId = ''R''\<rparr>),
         (''G1'', \<lparr>su_oduserId = ''a '', su_userName = Some ''Gil'', su_roomId = ''R''\<rparr>),
         (''G2'', \<lparr>su_oduserId = ''a'', su_userName = Some ''Gil'', su_roomId = ''R''\<rparr>)],
      sioRooms = [(''A'', [''A'']), (''R'', [''A'']), (''G1'', [''G1'']), (''G2'', [''G2''])]\<rparr>"

subsection \<open>Invariants\<close>

text \<open>Three facts about the states the hub can reach: denied users are recorded only for
  a room that has metadata, the host of a room is among its approved users, and every
  participant of a room is in the room's socket.io room.\<close>

definition denied_room_known :: "hub \<Rightarrow> bool" where
  "denied_room_known s =
     (\<forall>room. map_of (deniedUsers s) room \<noteq> None \<longrightarrow> map_of (roomMetadata s) room \<noteq> None)"

definition host_approved :: "hub \<Rightarrow> bool" where
  "host_approved s =
     (\<forall>room md. map_of (roomMetadata s) room = Some md \<longrightarrow> isApproved s room (hostUserId md))"


text \<open>Words for the lifetime of a room: the participants map is empty once the socket
  is removed; the socket is a participant with the host's user id; all five per-room
  entries are gone; and two metadata records belong to the same incarnation of a room.\<close>

definition emptiedBy :: "hub \<Rightarrow> sid \<Rightarrow> rid \<Rightarrow> bool" where
  "emptiedBy s sock room =
     (case map_of (rooms s) room of None \<Rightarrow> False | Some r \<Rightarrow> AList.delete sock r = [])"

definition endedByHost :: "hub \<Rightarrow> sid \<Rightarrow> rid \<Rightarrow> bool" where
  "endedByHost s sock room =
     (case map_of (roomMetadata s) room of
        None \<Rightarrow> False
      | Some md \<Rightarrow>
          (case (case map_of (rooms s) room of None \<Rightarrow> None | Some r \<Rightarrow> map_of r sock) of
             None \<Rightarrow> False
           | Some userData \<Rightarrow> p_oduserId userData = hostUserId md))"

definition roomGone :: "hub \<Rightarrow> rid \<Rightarrow> bool" where
  "roomGone s room =
     (map_of (rooms s) room = None \<and> map_of (roomMetadata s) room = None
      \<and> map_of (approvedUsers s) room = None \<and> map_of (pendingJoinRequests s) room = None
      \<and> map_of (deniedUsers s) room = None)"

definition sameRoom :: "metadata \<Rightarrow> metadata \<Rightarrow> bool" where
  "sameRoom md md' =
     (hostUserId md' = hostUserId md \<and> createdAt md' = createdAt md
      \<and> (truthy (meetingStartTime md) \<longrightarrow> meetingStartTime md' = meetingStartTime md))"

text \<open>User ids in normal form: the approved users, the pending keys and the denied keys
  of a room, the runs whose admission events carry ids that \<^verbatim>\<open>normalizeId\<close> leaves
  unchanged, and the property that the three sets of every room are disjoint, with
  distinct keys, all in normal form.\<close>

definition approvedOf :: "hub \<Rightarrow> rid \<Rightarrow> uid list" where
  "approvedOf s room = (case map_of (approvedUsers s) room of None \<Rightarrow> [] | Some a \<Rightarrow> a)"

definition pendingOf :: "hub \<Rightarrow> rid \<Rightarrow> (uid \<times> request) list" where
  "pendingOf s room = (case map_of (pendingJoinRequests s) room of None \<Rightarrow> [] | Some r \<Rightarrow> r)"

definition deniedOf :: "hub \<Rightarrow> rid \<Rightarrow> (uid \<times> denial) list" where
  "deniedOf s room = (case map_of (deniedUsers s) room of None \<Rightarrow> [] | Some d \<Rightarrow> d)"

definition normalId :: "uid \<Rightarrow> bool" where
  "normalId u = (normalizeId u = u)"

definition excl :: "uid list \<Rightarrow> uid list \<Rightarrow> uid list \<Rightarrow> bool" where
  "excl A P D =
     ((\<forall>k \<in> set A \<union> set P \<union> set D. normalId k) \<and> distinct P \<and> distinct D
      \<and> set A \<inter> set P = {} \<and> set A \<inter> set D = {} \<and> set P \<inter> set D = {})"

definition exclusive :: "hub \<Rightarrow> bool" where
  "exclusive s =
     (\<forall>room. excl (approvedOf s room) (map fst (pendingOf s room)) (map fst (deniedOf s room)))"

fun normalEvent :: "event \<Rightarrow> bool" where
  "normalEvent (FromSocket sock (RequestJoinRoom room u userName isRejoin)) = normalId u"
| "normalEvent (FromSocket sock (ApproveJoinRequest room u approverUserId)) = normalId u"
| "normalEvent (FromSocket sock (DenyJoinRequest room u why approverUserId)) = normalId u"
| "normalEvent e = True"

inductive reachableNormal :: "hub \<Rightarrow> bool" where
  reachableNormal_init: "reachableNormal init_hub"
| reachableNormal_step:
    "reachableNormal s \<Longrightarrow> normalEvent e \<Longrightarrow> step s now e = Inr (s', out) \<Longrightarrow> reachableNormal s'"

section \<open>Properties\<close>

subsection \<open>Runs and reachable states\<close>

lemma run_reachable:
  "reachable s \<Longrightarrow> run s es = Inr (s', out) \<Longrightarrow> reachable s'"
proof (induction es arbitrary: s out)
  case Nil
  then show ?case by simp
next
  case (Cons a es)
  obtain now e where a: "a = (now, e)" by (cases a)
  from Cons.prems(2) a obtain s1 o1 o2 where
    st: "step s now e = Inr (s1, o1)" and rn: "run s1 es = Inr (s', o2)"
    by (auto split: sum.splits)
  from Cons.prems(1) st have "reachable s1" by (rule reachable_step)
  then show ?case using rn by (rule Cons.IH)
qed

lemma run_fst_reachable:
  assumes "map_sum id fst (run init_hub es) = Inr s'"
  shows "reachable s'"
proof -
  obtain r where r: "run init_hub es = Inr r" and f: "fst r = s'"
    using assms by (cases "run init_hub es") auto
  then have "run init_hub es = Inr (s', snd r)" by (cases r) simp
  with reachable_init show ?thesis by (rule run_reachable)
qed

lemma lobby_reached: "map_sum id fst (run init_hub lobby_events) = Inr lobby"
  by code_simp

lemma reachable_lobby: "reachable lobby"
  using lobby_reached by (rule run_fst_reachable)

lemma waiting_room_reached: "map_sum id fst (run init_hub waiting_events) = Inr waiting_room"
  by code_simp

lemma reachable_waiting_room: "reachable waiting_room"
  using waiting_room_reached by (rule run_fst_reachable)



subsection \<open>Host-only admission events\<close>




subsection \<open>Signaling relay\<close>

lemma io_to_room_recipients [simp]: "map fst (io_to_room s name m) = members s name"
  by (simp add: io_to_room_def comp_def)

lemma io_to_room_payload: "d \<in> set (io_to_room s name m) \<Longrightarrow> snd d = m"
  by (auto simp: io_to_room_def)

lemma io_to_room_member:
  "(t, m') \<in> set (io_to_room s name m) \<longleftrightarrow> t \<in> set (members s name) \<and> m' = m"
  by (auto simp: io_to_room_def)

text \<open>
  C2, as the code has it. The offer, answer and ice-candidate handlers are one
  \<^verbatim>\<open>io.to(to).emit\<close> each, whatever the state is: the state is unchanged, the recipients
  are the members of the socket.io room named by \<^verbatim>\<open>to\<close>, in particular the socket with
  that id while it is connected, and every delivery carries the relayed payload, so no
  error is emitted. The handlers check neither participants nor payload size (the
  transport's cap of 100 MB per message is outside the handlers and not part of the
  model).
\<close>

theorem signaling_relay_unconditional:
  "fst (offer s sock sdp to frm userName u media) = s
   \<and> map fst (snd (offer s sock sdp to frm userName u media)) = members s to
   \<and> (\<forall>d \<in> set (snd (offer s sock sdp to frm userName u media)).
         snd d = OfferMsg sdp frm userName u media)
   \<and> fst (answer s sock sdp to frm u) = s
   \<and> map fst (snd (answer s sock sdp to frm u)) = members s to
   \<and> (\<forall>d \<in> set (snd (answer s sock sdp to frm u)). snd d = AnswerMsg sdp frm u)
   \<and> fst (ice_candidate s sock candidate to frm) = s
   \<and> map fst (snd (ice_candidate s sock candidate to frm)) = members s to
   \<and> (\<forall>d \<in> set (snd (ice_candidate s sock candidate to frm)).
         snd d = IceCandidateMsg candidate frm)
   \<and> (to \<in> set (members s to) \<longrightarrow>
         (to, OfferMsg sdp frm userName u media)
           \<in> set (snd (offer s sock sdp to frm userName u media))
       \<and> (to, AnswerMsg sdp frm u) \<in> set (snd (answer s sock sdp to frm u))
       \<and> (to, IceCandidateMsg candidate frm) \<in> set (snd (ice_candidate s sock candidate to frm)))"
  by (simp add: offer_def answer_def ice_candidate_def io_to_room_payload io_to_room_member)

theorem signaling_relay_unconditional_witness:
  "''S2'' \<in> set (members lobby ''S2'')
   \<and> fst (offer lobby ''S1'' ''sdp'' ''S2'' ''S1'' ''Ann'' ''a'' None) = lobby
   \<and> (''S2'', OfferMsg ''sdp'' ''S1'' ''Ann'' ''a'' None)
        \<in> set (snd (offer lobby ''S1'' ''sdp'' ''S2'' ''S1'' ''Ann'' ''a'' None))
   \<and> map fst (snd (answer meeting_room ''A'' ''sdp'' ''R'' ''A'' ''ua'')) = [''A'', ''B'']
   \<and> map snd (snd (answer meeting_room ''A'' ''sdp'' ''R'' ''A'' ''ua''))
       = [AnswerMsg ''sdp'' ''A'' ''ua'', AnswerMsg ''sdp'' ''A'' ''ua'']"
proof -
  have h: "''S2'' \<in> set (members lobby ''S2'')" by code_simp
  have m: "members meeting_room ''R'' = [''A'', ''B'']" by code_simp
  have b: "map snd (snd (answer meeting_room ''A'' ''sdp'' ''R'' ''A'' ''ua''))
       = [AnswerMsg ''sdp'' ''A'' ''ua'', AnswerMsg ''sdp'' ''A'' ''ua'']"
    by code_simp
  note L = signaling_relay_unconditional [where s = lobby and sock = "''S1''" and sdp = "''sdp''"
      and to = "''S2''" and frm = "''S1''" and userName = "''Ann''" and u = "''a''"
      and media = None]
  note M = signaling_relay_unconditional [where s = meeting_room and sock = "''A''"
      and sdp = "''sdp''" and to = "''R''" and frm = "''A''" and u = "''ua''"]
  from L h have l1: "fst (offer lobby ''S1'' ''sdp'' ''S2'' ''S1'' ''Ann'' ''a'' None) = lobby"
    and l2: "(''S2'', OfferMsg ''sdp'' ''S1'' ''Ann'' ''a'' None)
        \<in> set (snd (offer lobby ''S1'' ''sdp'' ''S2'' ''S1'' ''Ann'' ''a'' None))"
    by blast+
  from M m have m1: "map fst (snd (answer meeting_room ''A'' ''sdp'' ''R'' ''A'' ''ua'')) = [''A'', ''B'']"
    by simp
  from h l1 l2 m1 b show ?thesis by blast
qed

text \<open>
  C2 fails as stated: two sockets are connected and no room exists, so neither sender nor
  target is a participant of any room; the offer is relayed to the target and no error is
  sent.
\<close>

theorem offer_relayed_outside_any_room:
  "map_sum id fst (run init_hub lobby_events) = Inr lobby
   \<and> rooms lobby = []
   \<and> offer lobby ''S1'' ''sdp'' ''S2'' ''S1'' ''Ann'' ''a'' None
       = (lobby, [(''S2'', OfferMsg ''sdp'' ''S1'' ''Ann'' ''a'' None)])"
  by code_simp

subsection \<open>Normal forms of identifiers\<close>

lemma dropWhile_id: "xs = [] \<or> \<not> P (hd xs) \<Longrightarrow> dropWhile P xs = xs"
  by (cases xs) auto

lemma dropWhile_hd: "dropWhile P xs = [] \<or> \<not> P (hd (dropWhile P xs))"
  by (metis hd_dropWhile)

lemma trim_idem: "trim (trim x) = trim x"
proof -
  define y where "y = dropWhile is_ws x"
  define z where "z = dropWhile is_ws (rev y)"
  have y: "y = [] \<or> \<not> is_ws (hd y)" unfolding y_def by (rule dropWhile_hd)
  have z: "z = [] \<or> \<not> is_ws (hd z)" unfolding z_def by (rule dropWhile_hd)
  have rz: "rev z = [] \<or> \<not> is_ws (hd (rev z))"
    by (metis Nil_is_append_conv hd_rev last_appendR last_rev rev.simps(1)
        takeWhile_dropWhile_id y z_def)
  have "trim (rev z) = rev (dropWhile is_ws (rev (dropWhile is_ws (rev z))))"
    by (simp add: trim_def)
  also have "dropWhile is_ws (rev z) = rev z" using rz by (rule dropWhile_id)
  also have "rev (dropWhile is_ws (rev (rev z))) = rev z"
    using dropWhile_id [of z is_ws] z by simp
  finally have "trim (rev z) = rev z" .
  moreover have "trim x = rev z" by (simp add: trim_def y_def z_def)
  ultimately show ?thesis by simp
qed

lemma normalizeId_idem [simp]: "normalizeId (normalizeId u) = normalizeId u"
  by (simp add: normalizeId_def trim_idem)

subsection \<open>What the helper functions change\<close>

lemmas alist_simps = AList.update_conv' AList.delete_conv'

lemma updateHostSocketId_fields [simp]:
  "rooms (updateHostSocketId s room h) = rooms s"
  "approvedUsers (updateHostSocketId s room h) = approvedUsers s"
  "pendingJoinRequests (updateHostSocketId s room h) = pendingJoinRequests s"
  "deniedUsers (updateHostSocketId s room h) = deniedUsers s"
  "socketUserMap (updateHostSocketId s room h) = socketUserMap s"
  "sioRooms (updateHostSocketId s room h) = sioRooms s"
  by (simp_all add: updateHostSocketId_def split: option.splits)

lemma updateHostSocketId_metadata [simp]:
  "map_of (roomMetadata (updateHostSocketId s room h)) room' =
     (if room' = room then map_option (\<lambda>md. md\<lparr>hostSocketId := h\<rparr>) (map_of (roomMetadata s) room)
      else map_of (roomMetadata s) room')"
  by (simp add: updateHostSocketId_def AList.update_conv' split: option.splits)

lemma approveUser_fields [simp]:
  "rooms (approveUser s room u) = rooms s"
  "roomMetadata (approveUser s room u) = roomMetadata s"
  "socketUserMap (approveUser s room u) = socketUserMap s"
  "sioRooms (approveUser s room u) = sioRooms s"
  by (simp_all add: approveUser_def Let_def split: option.splits)

lemma approveUser_approved [simp]:
  "map_of (approvedUsers (approveUser s room u)) room' =
     (if room' = room
      then Some (set_add (normalizeId u)
                   (case map_of (approvedUsers s) room of None \<Rightarrow> [] | Some a \<Rightarrow> a))
      else map_of (approvedUsers s) room')"
  by (simp add: approveUser_def Let_def AList.update_conv' split: option.splits)

lemma approveUser_pending [simp]:
  "map_of (pendingJoinRequests (approveUser s room u)) room' =
     (if room' = room
      then map_option (deleteFirstNormalized (normalizeId u)) (map_of (pendingJoinRequests s) room)
      else map_of (pendingJoinRequests s) room')"
  by (simp add: approveUser_def Let_def AList.update_conv' split: option.splits)

lemma approveUser_denied [simp]:
  "map_of (deniedUsers (approveUser s room u)) room' =
     (if room' = room
      then map_option (deleteFirstNormalized (normalizeId u)) (map_of (deniedUsers s) room)
      else map_of (deniedUsers s) room')"
  by (simp add: approveUser_def Let_def AList.update_conv' split: option.splits)

lemma denyUser_fields [simp]:
  "rooms (denyUser s now room u why) = rooms s"
  "roomMetadata (denyUser s now room u why) = roomMetadata s"
  "approvedUsers (denyUser s now room u why) = approvedUsers s"
  "socketUserMap (denyUser s now room u why) = socketUserMap s"
  "sioRooms (denyUser s now room u why) = sioRooms s"
  by (simp_all add: denyUser_def Let_def split: option.splits)

lemma denyUser_denied [simp]:
  "map_of (deniedUsers (denyUser s now room u why)) room' =
     (if room' = room
      then Some (AList.update u \<lparr>deniedAt = now, reason = why\<rparr>
                   (case map_of (deniedUsers s) room of None \<Rightarrow> [] | Some d \<Rightarrow> d))
      else map_of (deniedUsers s) room')"
  by (simp add: denyUser_def Let_def AList.update_conv' split: option.splits)

lemma denyUser_pending [simp]:
  "map_of (pendingJoinRequests (denyUser s now room u why)) room' =
     (if room' = room
      then map_option (AList.delete u) (map_of (pendingJoinRequests s) room)
      else map_of (pendingJoinRequests s) room')"
  by (simp add: denyUser_def Let_def AList.update_conv' split: option.splits)

lemma registerApprover_fields [simp]:
  "rooms (registerApprover s sock room a) = rooms s"
  "approvedUsers (registerApprover s sock room a) = approvedUsers s"
  "pendingJoinRequests (registerApprover s sock room a) = pendingJoinRequests s"
  "deniedUsers (registerApprover s sock room a) = deniedUsers s"
  "sioRooms (registerApprover s sock room a) = sioRooms s"
  "roomMetadata (registerApprover s sock room a) = roomMetadata (updateHostSocketId s room sock)"
  by (simp_all add: registerApprover_def Let_def)

lemma deletePending_fields [simp]:
  "rooms (deletePending s room k) = rooms s"
  "roomMetadata (deletePending s room k) = roomMetadata s"
  "approvedUsers (deletePending s room k) = approvedUsers s"
  "deniedUsers (deletePending s room k) = deniedUsers s"
  "socketUserMap (deletePending s room k) = socketUserMap s"
  "sioRooms (deletePending s room k) = sioRooms s"
  by (simp_all add: deletePending_def split: option.splits)

lemma deletePending_pending [simp]:
  "map_of (pendingJoinRequests (deletePending s room k)) room' =
     (if room' = room
      then map_option (AList.delete k) (map_of (pendingJoinRequests s) room)
      else map_of (pendingJoinRequests s) room')"
  by (simp add: deletePending_def AList.update_conv' split: option.splits)

lemma socket_join_fields [simp]:
  "rooms (socket_join s sock room) = rooms s"
  "roomMetadata (socket_join s sock room) = roomMetadata s"
  "approvedUsers (socket_join s sock room) = approvedUsers s"
  "pendingJoinRequests (socket_join s sock room) = pendingJoinRequests s"
  "deniedUsers (socket_join s sock room) = deniedUsers s"
  "socketUserMap (socket_join s sock room) = socketUserMap s"
  by (simp_all add: socket_join_def)

lemma members_socket_join [simp]:
  "members (socket_join s sock room) room' =
     (if room' = room then set_add sock (members s room) else members s room')"
  by (simp add: socket_join_def members_def AList.update_conv')

lemma socket_leave_fields [simp]:
  "rooms (socket_leave s sock room) = rooms s"
  "roomMetadata (socket_leave s sock room) = roomMetadata s"
  "approvedUsers (socket_leave s sock room) = approvedUsers s"
  "pendingJoinRequests (socket_leave s sock room) = pendingJoinRequests s"
  "deniedUsers (socket_leave s sock room) = deniedUsers s"
  "socketUserMap (socket_leave s sock room) = socketUserMap s"
  by (simp_all add: socket_leave_def split: option.splits)

lemma members_socket_leave [simp]:
  "members (socket_leave s sock room) room' =
     (if room' = room then removeAll sock (members s room) else members s room')"
  by (simp add: socket_leave_def members_def AList.update_conv' split: option.splits)

lemma map_of_map_snd:
  "map_of (map (\<lambda>(k, v). (k, f v)) al) k = map_option f (map_of al k)"
  by (induction al) auto

lemma members_socket_leaveAll [simp]:
  "members (socket_leaveAll s sock) room = removeAll sock (members s room)"
  by (simp add: socket_leaveAll_def members_def map_of_map_snd split: option.splits)

lemma socket_leaveAll_fields [simp]:
  "rooms (socket_leaveAll s sock) = rooms s"
  "roomMetadata (socket_leaveAll s sock) = roomMetadata s"
  "approvedUsers (socket_leaveAll s sock) = approvedUsers s"
  "pendingJoinRequests (socket_leaveAll s sock) = pendingJoinRequests s"
  "deniedUsers (socket_leaveAll s sock) = deniedUsers s"
  "socketUserMap (socket_leaveAll s sock) = socketUserMap s"
  by (simp_all add: socket_leaveAll_def)

lemma cleanupRoom_fields [simp]:
  "socketUserMap (cleanupRoom s room) = socketUserMap s"
  "sioRooms (cleanupRoom s room) = sioRooms s"
  "map_of (rooms (cleanupRoom s room)) = (map_of (rooms s))(room := None)"
  "map_of (roomMetadata (cleanupRoom s room)) = (map_of (roomMetadata s))(room := None)"
  "map_of (approvedUsers (cleanupRoom s room)) = (map_of (approvedUsers s))(room := None)"
  "map_of (pendingJoinRequests (cleanupRoom s room)) = (map_of (pendingJoinRequests s))(room := None)"
  "map_of (deniedUsers (cleanupRoom s room)) = (map_of (deniedUsers s))(room := None)"
  by (simp_all add: cleanupRoom_def AList.delete_conv')

lemma members_cleanupRoom [simp]: "members (cleanupRoom s room) room' = members s room'"
  by (simp add: members_def)

lemma members_cong: "sioRooms s' = sioRooms s \<Longrightarrow> members s' room = members s room"
  by (simp add: members_def)

subsection \<open>Expiry of pending requests\<close>

lemma expireRequests_kept:
  "fst (expireRequests s now requests)
     = filter (\<lambda>(u, req). now - requestedAt req \<le> REQUEST_TIMEOUT) requests"
  by (induction requests) auto

lemma expireRequests_notified:
  "snd (expireRequests s now requests)
     = concat (map (\<lambda>(u, req). io_if_truthy s (r_socketId req)
                 (JoinRequestExpired ''Your join request has expired. Please try again.''))
         (filter (\<lambda>(u, req). now - requestedAt req > REQUEST_TIMEOUT) requests))"
  by (induction requests) auto

text \<open>What a sweeper tick leaves pending: the requests whose age is at most the timeout.\<close>

lemma cleanupExpiredRequests_pending:
  "map_of (pendingJoinRequests (fst (cleanupExpiredRequests s now room1))) room =
     (if room = room1
      then map_option (filter (\<lambda>(u, req). now - requestedAt req \<le> REQUEST_TIMEOUT))
             (map_of (pendingJoinRequests s) room)
      else map_of (pendingJoinRequests s) room)"
  by (simp add: cleanupExpiredRequests_def expireRequests_kept alist_simps split: option.splits)

lemma sweepRooms_pending:
  "map_of (pendingJoinRequests (fst (sweepRooms s now ks))) room =
     (if room \<in> set ks
      then map_option (filter (\<lambda>(u, req). now - requestedAt req \<le> REQUEST_TIMEOUT))
             (map_of (pendingJoinRequests s) room)
      else map_of (pendingJoinRequests s) room)"
proof (induction ks arbitrary: s)
  case Nil
  then show ?case by simp
next
  case (Cons k ks)
  show ?case
    by (cases "map_of (pendingJoinRequests s) room")
       (auto simp: Let_def Cons.IH cleanupExpiredRequests_pending)
qed

lemma sweeper_tick_pending:
  "map_of (pendingJoinRequests (fst (sweeper_tick s now))) room =
     map_option (filter (\<lambda>(u, req). now - requestedAt req \<le> REQUEST_TIMEOUT))
       (map_of (pendingJoinRequests s) room)"
proof (cases "map_of (pendingJoinRequests s) room")
  case None
  then show ?thesis by (simp add: sweeper_tick_def sweepRooms_pending)
next
  case (Some a)
  then have "room \<in> set (map fst (pendingJoinRequests s))"
    by (force dest!: map_of_SomeD)
  then show ?thesis by (simp add: sweeper_tick_def sweepRooms_pending)
qed

text \<open>
  C7 at the boundary. Gil's request was made at time 1000. The sweeper tick at which the
  request is exactly five minutes old removes nothing and sends nothing, although
  \<^verbatim>\<open>getPendingRequests\<close> at the same moment no longer lists the request; the tick one
  minute later removes it and notifies socket G.
\<close>

theorem sweeper_keeps_request_aged_exactly_timeout:
  "map_option (map (requestedAt \<circ> snd)) (map_of (pendingJoinRequests waiting_room) ''R'')
     = Some [1000]
   \<and> sweeper_tick waiting_room (1000 + 5 * 60 * 1000) = (waiting_room, [])
   \<and> getPendingRequests waiting_room (1000 + 5 * 60 * 1000) ''R'' = []
   \<and> snd (sweeper_tick waiting_room (1000 + 5 * 60 * 1000 + 60000))
       = [(''G'', JoinRequestExpired ''Your join request has expired. Please try again.'')]"
  by code_simp

subsection \<open>Loops keep what they do not touch\<close>

lemma admitLoop_fields [simp]:
  "rooms (fst (admitLoop s room reqs)) = rooms s"
  "roomMetadata (fst (admitLoop s room reqs)) = roomMetadata s"
  "socketUserMap (fst (admitLoop s room reqs)) = socketUserMap s"
  "sioRooms (fst (admitLoop s room reqs)) = sioRooms s"
  by (induction s room reqs rule: admitLoop.induct; simp add: Let_def)+

lemma admitLoop_denied_dom [simp]:
  "(map_of (deniedUsers (fst (admitLoop s room reqs))) room' = None)
     = (map_of (deniedUsers s) room' = None)"
  by (induction s room reqs rule: admitLoop.induct) (simp_all add: Let_def)

lemma admitLoop_denied_Some:
  assumes "map_of (deniedUsers (fst (admitLoop s room reqs))) room' = Some y"
  shows "\<exists>z. map_of (deniedUsers s) room' = Some z"
proof -
  from assms have "map_of (deniedUsers (fst (admitLoop s room reqs))) room' \<noteq> None" by simp
  then have "map_of (deniedUsers s) room' \<noteq> None" by simp
  then show ?thesis by blast
qed

lemma set_add_set [simp]: "set (set_add x xs) = insert x (set xs)"
  by (auto simp: set_add_def)

lemma isApproved_approveUser:
  "isApproved (approveUser s room u) room' v
     = (isApproved s room' v \<or> (room' = room \<and> normalizeId v = normalizeId u))"
  by (auto simp: isApproved_def list_ex_iff split: option.splits)

lemma isApproved_admitLoop:
  "isApproved s room' v \<Longrightarrow> isApproved (fst (admitLoop s room reqs)) room' v"
  by (induction s room reqs rule: admitLoop.induct)
     (simp_all add: Let_def isApproved_approveUser)

lemma cleanupExpiredRequests_fields [simp]:
  "rooms (fst (cleanupExpiredRequests s now room)) = rooms s"
  "roomMetadata (fst (cleanupExpiredRequests s now room)) = roomMetadata s"
  "approvedUsers (fst (cleanupExpiredRequests s now room)) = approvedUsers s"
  "deniedUsers (fst (cleanupExpiredRequests s now room)) = deniedUsers s"
  "socketUserMap (fst (cleanupExpiredRequests s now room)) = socketUserMap s"
  "sioRooms (fst (cleanupExpiredRequests s now room)) = sioRooms s"
  by (simp_all add: cleanupExpiredRequests_def split: option.splits)

lemma sweepRooms_fields [simp]:
  "rooms (fst (sweepRooms s now ks)) = rooms s"
  "roomMetadata (fst (sweepRooms s now ks)) = roomMetadata s"
  "approvedUsers (fst (sweepRooms s now ks)) = approvedUsers s"
  "deniedUsers (fst (sweepRooms s now ks)) = deniedUsers s"
  "socketUserMap (fst (sweepRooms s now ks)) = socketUserMap s"
  "sioRooms (fst (sweepRooms s now ks)) = sioRooms s"
  by (induction ks arbitrary: s; simp add: Let_def)+

lemma isApproved_cong: "approvedUsers s' = approvedUsers s \<Longrightarrow> isApproved s' = isApproved s"
  by (simp add: isApproved_def fun_eq_iff)

lemma isDenied_cong: "deniedUsers s' = deniedUsers s \<Longrightarrow> isDenied s' = isDenied s"
  by (simp add: isDenied_def fun_eq_iff)

lemma isHost_cong: "roomMetadata s' = roomMetadata s \<Longrightarrow> isHost s' = isHost s"
  by (simp add: isHost_def fun_eq_iff)

lemma hasPendingRequest_cong:
  "pendingJoinRequests s' = pendingJoinRequests s \<Longrightarrow> hasPendingRequest s' = hasPendingRequest s"
  by (simp add: hasPendingRequest_def fun_eq_iff)

subsection \<open>A denied user belongs to a room that exists\<close>

lemma denied_room_known_init: "denied_room_known init_hub"
  by (simp add: denied_room_known_def init_hub_def)

lemma denied_room_known_handleUserLeave:
  "denied_room_known s \<Longrightarrow> denied_room_known (fst (handleUserLeave s sock room u))"
  by (auto simp: denied_room_known_def handleUserLeave_def Let_def split: option.splits)

lemma denied_room_known_leaveRooms:
  "denied_room_known s \<Longrightarrow> denied_room_known (fst (leaveRooms s sock ks))"
  by (induction s sock ks rule: leaveRooms.induct)
     (auto simp: Let_def denied_room_known_handleUserLeave split: option.splits)

lemma denied_room_known_handle:
  assumes "denied_room_known s" and "handle s sock now e = Inr (s', out)"
  shows "denied_room_known s'"
proof (cases e)
  case (RequestJoinRoom room u userName isRejoin)
  with assms show ?thesis
    by (auto simp: request_join_room_def Let_def denied_room_known_def alist_simps
        split: if_splits option.splits)
next
  case (ApproveJoinRequest room u a)
  with assms show ?thesis
    by (auto simp: approve_join_request_def Let_def denied_room_known_def alist_simps
        split: if_splits option.splits prod.splits)
next
  case (DenyJoinRequest room u why a)
  with assms show ?thesis
    by (auto simp: deny_join_request_def Let_def denied_room_known_def alist_simps
        split: if_splits option.splits prod.splits)
next
  case (AdmitAllWaiting room a)
  with assms show ?thesis
    by (auto simp: admit_all_waiting_def Let_def denied_room_known_def alist_simps
        dest!: admitLoop_denied_Some split: if_splits option.splits prod.splits)
next
  case (JoinRoom room u userName media)
  with assms show ?thesis
    by (auto simp: join_room_def Let_def denied_room_known_def alist_simps
        split: if_splits option.splits)
next
  case (UpdateWaitingSocket room u)
  with assms show ?thesis
    by (auto simp: update_waiting_socket_def denied_room_known_def alist_simps split: option.splits)
next
  case (ToggleMedia room type enabled)
  with assms show ?thesis
    by (auto simp: toggle_media_def Let_def denied_room_known_def alist_simps split: option.splits if_splits)
next
  case (SetMeetingStartTime room t)
  with assms show ?thesis
    by (auto simp: set_meeting_start_time_def denied_room_known_def alist_simps
        split: option.splits if_splits)
next
  case (RequestMeetingStartTime room)
  with assms show ?thesis
    by (auto simp: request_meeting_start_time_def split: option.splits if_splits)
next
  case (LeaveRoom room u)
  with assms(2) have "s' = fst (handleUserLeave s sock room u)"
    by (simp add: leave_room_def)
  with assms(1) show ?thesis by (simp add: denied_room_known_handleUserLeave)
next
  case (EndMeeting room)
  with assms show ?thesis
    by (auto simp: end_meeting_def denied_room_known_def alist_simps split: option.splits if_splits)
next
  case Disconnect
  have "denied_room_known
          ((socket_leaveAll s sock)\<lparr>pendingJoinRequests :=
             map (\<lambda>(room, requests). (room, markStale sock requests))
               (pendingJoinRequests (socket_leaveAll s sock))\<rparr>)"
    using assms(1) by (simp add: denied_room_known_def)
  moreover from assms(2) Disconnect have "s' = fst (disconnect s sock)" by simp
  ultimately show ?thesis
    by (simp add: disconnect_def Let_def denied_room_known_leaveRooms)
qed (use assms in \<open>auto simp: rejoin_room_def offer_def answer_def ice_candidate_def
      request_renegotiation_def recording_status_def send_message_def transcription_entry_def\<close>)

lemma denied_room_known_step:
  assumes "denied_room_known s" and "step s now e = Inr (s', out)"
  shows "denied_room_known s'"
proof (cases e)
  case (FromSocket sock ce)
  with assms show ?thesis by (auto intro: denied_room_known_handle)
next
  case SweeperTick
  with assms have "s' = fst (sweeper_tick s now)" by simp
  with assms(1) show ?thesis by (simp add: sweeper_tick_def denied_room_known_def)
next
  case (Connection c)
  with assms show ?thesis by (auto simp: denied_room_known_def)
qed

lemma reachable_denied_room_known: "reachable s \<Longrightarrow> denied_room_known s"
  by (induction rule: reachable.induct)
     (auto intro: denied_room_known_init denied_room_known_step)

subsection \<open>The host of a room is approved\<close>

lemma isApproved_record_update [simp]:
  "isApproved (s\<lparr>rooms := a\<rparr>) = isApproved s"
  "isApproved (s\<lparr>roomMetadata := b\<rparr>) = isApproved s"
  "isApproved (s\<lparr>pendingJoinRequests := c\<rparr>) = isApproved s"
  "isApproved (s\<lparr>deniedUsers := d\<rparr>) = isApproved s"
  "isApproved (s\<lparr>socketUserMap := e\<rparr>) = isApproved s"
  "isApproved (s\<lparr>sioRooms := f\<rparr>) = isApproved s"
  by (simp_all add: isApproved_def fun_eq_iff)

lemma isApproved_helpers [simp]:
  "isApproved (updateHostSocketId s room h) = isApproved s"
  "isApproved (registerApprover s sock room a) = isApproved s"
  "isApproved (socket_join s sock room) = isApproved s"
  "isApproved (socket_leave s sock room) = isApproved s"
  "isApproved (socket_leaveAll s sock) = isApproved s"
  "isApproved (deletePending s room k) = isApproved s"
  "isApproved (denyUser s now room u why) = isApproved s"
  by (rule isApproved_cong, simp)+

lemma isApproved_cleanupRoom [simp]:
  "isApproved (cleanupRoom s room) room' u = (room' \<noteq> room \<and> isApproved s room' u)"
  by (simp add: isApproved_def)

lemma host_approved_init: "host_approved init_hub"
  by (simp add: host_approved_def init_hub_def)

lemma host_approved_handleUserLeave:
  "host_approved s \<Longrightarrow> host_approved (fst (handleUserLeave s sock room u))"
  by (auto simp: host_approved_def handleUserLeave_def Let_def split: option.splits if_splits)

lemma host_approved_leaveRooms:
  "host_approved s \<Longrightarrow> host_approved (fst (leaveRooms s sock ks))"
  by (induction s sock ks rule: leaveRooms.induct)
     (auto simp: Let_def host_approved_handleUserLeave split: option.splits)

lemma host_approved_handle:
  assumes "host_approved s" and "handle s sock now e = Inr (s', out)"
  shows "host_approved s'"
proof (cases e)
  case (RequestJoinRoom room u userName isRejoin)
  with assms show ?thesis
    by (auto simp: request_join_room_def Let_def host_approved_def alist_simps
        isApproved_approveUser split: if_splits option.splits)
next
  case (ApproveJoinRequest room u a)
  with assms show ?thesis
    by (auto simp: approve_join_request_def Let_def host_approved_def alist_simps
        isApproved_approveUser split: if_splits option.splits prod.splits)
next
  case (DenyJoinRequest room u why a)
  with assms show ?thesis
    by (auto simp: deny_join_request_def Let_def host_approved_def alist_simps
        split: if_splits option.splits prod.splits)
next
  case (AdmitAllWaiting room a)
  with assms show ?thesis
    by (auto simp: admit_all_waiting_def Let_def host_approved_def alist_simps
        intro!: isApproved_admitLoop split: if_splits option.splits prod.splits)
next
  case (JoinRoom room u userName media)
  with assms show ?thesis
    by (auto simp: join_room_def Let_def host_approved_def alist_simps
        split: if_splits option.splits)
next
  case (UpdateWaitingSocket room u)
  with assms show ?thesis
    by (auto simp: update_waiting_socket_def host_approved_def split: option.splits)
next
  case (ToggleMedia room type enabled)
  with assms show ?thesis
    by (auto simp: toggle_media_def Let_def host_approved_def split: option.splits if_splits)
next
  case (SetMeetingStartTime room t)
  with assms show ?thesis
    by (auto simp: set_meeting_start_time_def host_approved_def alist_simps
        split: option.splits if_splits)
next
  case (RequestMeetingStartTime room)
  with assms show ?thesis
    by (auto simp: request_meeting_start_time_def split: option.splits if_splits)
next
  case (LeaveRoom room u)
  with assms(2) have "s' = fst (handleUserLeave s sock room u)"
    by (simp add: leave_room_def)
  with assms(1) show ?thesis by (simp add: host_approved_handleUserLeave)
next
  case (EndMeeting room)
  with assms show ?thesis
    by (auto simp: end_meeting_def host_approved_def split: option.splits if_splits)
next
  case Disconnect
  have "host_approved
          ((socket_leaveAll s sock)\<lparr>pendingJoinRequests :=
             map (\<lambda>(room, requests). (room, markStale sock requests))
               (pendingJoinRequests (socket_leaveAll s sock))\<rparr>)"
    using assms(1) by (simp add: host_approved_def)
  moreover from assms(2) Disconnect have "s' = fst (disconnect s sock)" by simp
  ultimately show ?thesis
    by (simp add: disconnect_def Let_def host_approved_leaveRooms)
qed (use assms in \<open>auto simp: rejoin_room_def offer_def answer_def ice_candidate_def
      request_renegotiation_def recording_status_def send_message_def transcription_entry_def\<close>)

lemma host_approved_step:
  assumes "host_approved s" and "step s now e = Inr (s', out)"
  shows "host_approved s'"
proof (cases e)
  case (FromSocket sock ce)
  with assms show ?thesis by (auto intro: host_approved_handle)
next
  case SweeperTick
  with assms have "s' = fst (sweeper_tick s now)" by simp
  with assms(1) show ?thesis
    by (simp add: sweeper_tick_def host_approved_def isApproved_def)
next
  case (Connection c)
  with assms show ?thesis by (auto simp: host_approved_def)
qed

lemma reachable_host_approved: "reachable s \<Longrightarrow> host_approved s"
  by (induction rule: reachable.induct)
     (auto intro: host_approved_init host_approved_step)

subsection \<open>Creating a room\<close>

text \<open>
  C8, as the code has it. In a reachable state, a request-join-room event that names a
  room without metadata does not fail and answers the requester alone with join-approved,
  \<^verbatim>\<open>isHost: true\<close>; afterwards the room's metadata has the requester's user id as
  \<^verbatim>\<open>hostUserId\<close> and the requesting socket as \<^verbatim>\<open>hostSocketId\<close>. The approved users of
  the room contain the normal form of the user id, which is what \<^verbatim>\<open>isApproved\<close>
  compares, so the requester counts as approved and as host; they contain the user id
  itself when it is in normal form.
\<close>

theorem first_request_creates_room:
  assumes "reachable s" and "map_of (roomMetadata s) room = None"
  shows "case request_join_room s sock now room u userName isRejoin of
           Inl err \<Rightarrow> False
         | Inr (s', out) \<Rightarrow>
             out = [(sock, JoinApproved room True None ''You are the host of this meeting.'')]
           \<and> map_of (roomMetadata s') room
               = Some \<lparr>hostUserId = u, hostSocketId = sock, createdAt = now,
                       waitingRoomEnabled = True, meetingStartTime = None\<rparr>
           \<and> (\<exists>approved. map_of (approvedUsers s') room = Some approved
                  \<and> normalizeId u \<in> set approved
                  \<and> (normalId u \<longrightarrow> u \<in> set approved))
           \<and> isApproved s' room u \<and> isHost s' room u"
proof -
  from assms(1) have "denied_room_known s" by (rule reachable_denied_room_known)
  with assms(2) have d: "map_of (deniedUsers s) room = None"
    by (auto simp: denied_room_known_def)
  show ?thesis
    using assms(2) d
    by (simp add: request_join_room_def Let_def isDenied_def alist_simps isApproved_approveUser
        isHost_def normalId_def)
qed

theorem first_request_creates_room_witness:
  "reachable waiting_room \<and> map_of (roomMetadata waiting_room) ''Q'' = None
   \<and> normalId ''uc''
   \<and> (case request_join_room waiting_room ''G'' 2000 ''Q'' ''uc'' ''Cyd'' False of
           Inl err \<Rightarrow> False
         | Inr (s', out) \<Rightarrow>
             out = [(''G'', JoinApproved ''Q'' True None ''You are the host of this meeting.'')]
           \<and> map_of (roomMetadata s') ''Q''
               = Some \<lparr>hostUserId = ''uc'', hostSocketId = ''G'', createdAt = 2000,
                       waitingRoomEnabled = True, meetingStartTime = None\<rparr>
           \<and> (\<exists>approved. map_of (approvedUsers s') ''Q'' = Some approved
                  \<and> ''uc'' \<in> set approved)
           \<and> isApproved s' ''Q'' ''uc'' \<and> isHost s' ''Q'' ''uc'')"
proof -
  have h: "map_of (roomMetadata waiting_room) ''Q'' = None" by (simp add: waiting_room_def)
  have n: "normalId ''uc''" by code_simp
  show ?thesis
    using reachable_waiting_room h n
      first_request_creates_room [OF reachable_waiting_room h,
        where sock = "''G''" and now = 2000 and u = "''uc''" and userName = "''Cyd''"
          and isRejoin = False]
    by (auto split: sum.splits)
qed

text \<open>
  C8 fails as stated: a user id with a trailing blank becomes the \<^verbatim>\<open>hostUserId\<close> as it
  was sent, while the approved users hold its normal form and not the id itself.
\<close>

theorem host_id_approved_in_normal_form_only:
  "map_of (roomMetadata waiting_room) ''Q'' = None
   \<and> \<not> isl (request_join_room waiting_room ''G'' 2000 ''Q'' ''c '' ''Cyd'' False)
   \<and> map_option hostUserId
        (map_of (roomMetadata
           (fst (projr (request_join_room waiting_room ''G'' 2000 ''Q'' ''c '' ''Cyd'' False)))) ''Q'')
       = Some ''c ''
   \<and> map_of (approvedUsers
         (fst (projr (request_join_room waiting_room ''G'' 2000 ''Q'' ''c '' ''Cyd'' False)))) ''Q''
       = Some [''c'']
   \<and> ''c '' \<notin> set [''c'']"
  by code_simp

subsection \<open>Deduplication of join requests\<close>

text \<open>
  C6, as the code has it. In a reachable state let the room exist and the user be neither
  approved nor denied. If the user has no pending request inside the deduplication window,
  a request-join-room event at time \<open>now\<close> emits waiting-for-approval to the requester
  and one join-request, which is one \<^verbatim>\<open>io.to(hostSocketId).emit\<close>: it is delivered to
  the members of the socket.io room named by the host's socket id, so to the host's socket
  alone when that socket is the only member. A second request-join-room event of the same
  user less than \<^verbatim>\<open>DEDUP_WINDOW\<close> later (from any socket) emits only
  waiting-for-approval with \<^verbatim>\<open>isDuplicate: true\<close>, leaves all pending requests as they
  are, and the stored request still carries the first socket and the first
  \<^verbatim>\<open>requestedAt\<close>. If the user has a pending request inside the window, the event is
  answered as a duplicate, emits no join-request and changes nothing but the registration
  of the socket.
\<close>

theorem duplicate_request_within_window:
  assumes "reachable s"
    and "map_of (roomMetadata s) room = Some md"
    and "\<not> isApproved s room u" and "\<not> isDenied s room u"
  shows "(\<not> hasPendingRequest s now room u \<and> now' - now < DEDUP_WINDOW \<longrightarrow>
          (case request_join_room s sock now room u userName isRejoin of
             Inl err \<Rightarrow> False
           | Inr (s1, out1) \<Rightarrow>
               out1 = (sock, WaitingForApproval ''Waiting for the host to admit you...'' None
                          (Some (length (case map_of (pendingJoinRequests s1) room of
                                           None \<Rightarrow> [] | Some q \<Rightarrow> q))))
                      # (if hostSocketId md = [] then []
                         else map (\<lambda>t. (t, JoinRequest u userName sock now))
                                (members s (hostSocketId md)))
             \<and> (members s (hostSocketId md) = [hostSocketId md] \<and> hostSocketId md \<noteq> [] \<longrightarrow>
                   tl out1 = [(hostSocketId md, JoinRequest u userName sock now)])
             \<and> (case request_join_room s1 sock' now' room u userName' isRejoin' of
                   Inl err \<Rightarrow> False
                 | Inr (s2, out2) \<Rightarrow>
                     out2 = [(sock', WaitingForApproval
                                ''Your request is pending. Please wait for the host to admit you.''
                                (Some True) None)]
                   \<and> pendingJoinRequests s2 = pendingJoinRequests s1
                   \<and> map_of (case map_of (pendingJoinRequests s2) room of
                                None \<Rightarrow> [] | Some q \<Rightarrow> q) u
                       = Some \<lparr>r_oduserId = u, r_userName = userName, r_socketId = Some sock,
                               requestedAt = now, status = ''pending''\<rparr>)))
       \<and> (hasPendingRequest s now room u \<longrightarrow>
            request_join_room s sock now room u userName isRejoin
              = Inr (s\<lparr>socketUserMap :=
                         AList.update sock
                           \<lparr>su_oduserId = u, su_userName = Some userName, su_roomId = room\<rparr>
                           (socketUserMap s)\<rparr>,
                     [(sock, WaitingForApproval
                         ''Your request is pending. Please wait for the host to admit you.''
                         (Some True) None)]))"
proof -
  from assms(1) have "host_approved s" by (rule reachable_host_approved)
  with assms(2) have "isApproved s room (hostUserId md)" by (simp add: host_approved_def)
  with assms(3) have nh: "normalizeId (hostUserId md) \<noteq> normalizeId u"
    by (auto simp: isApproved_def split: option.splits)
  have first: "case request_join_room s sock now room u userName isRejoin of
             Inl err \<Rightarrow> False
           | Inr (s1, out1) \<Rightarrow>
               out1 = (sock, WaitingForApproval ''Waiting for the host to admit you...'' None
                          (Some (length (case map_of (pendingJoinRequests s1) room of
                                           None \<Rightarrow> [] | Some q \<Rightarrow> q))))
                      # (if hostSocketId md = [] then []
                         else map (\<lambda>t. (t, JoinRequest u userName sock now))
                                (members s (hostSocketId md)))
             \<and> (members s (hostSocketId md) = [hostSocketId md] \<and> hostSocketId md \<noteq> [] \<longrightarrow>
                   tl out1 = [(hostSocketId md, JoinRequest u userName sock now)])
             \<and> (case request_join_room s1 sock' now' room u userName' isRejoin' of
                   Inl err \<Rightarrow> False
                 | Inr (s2, out2) \<Rightarrow>
                     out2 = [(sock', WaitingForApproval
                                ''Your request is pending. Please wait for the host to admit you.''
                                (Some True) None)]
                   \<and> pendingJoinRequests s2 = pendingJoinRequests s1
                   \<and> map_of (case map_of (pendingJoinRequests s2) room of
                                None \<Rightarrow> [] | Some q \<Rightarrow> q) u
                       = Some \<lparr>r_oduserId = u, r_userName = userName, r_socketId = Some sock,
                               requestedAt = now, status = ''pending''\<rparr>)"
    if "\<not> hasPendingRequest s now room u" and "now' - now < DEDUP_WINDOW"
    using assms(2-4) that nh
    by (simp add: request_join_room_def Let_def isDenied_def isHost_def isApproved_def
        hasPendingRequest_def getHostSocketId_def io_if_truthy_def io_to_socket_def
        io_to_room_def members_def alist_simps
        split: option.splits)
  have again: "request_join_room s sock now room u userName isRejoin
              = Inr (s\<lparr>socketUserMap :=
                         AList.update sock
                           \<lparr>su_oduserId = u, su_userName = Some userName, su_roomId = room\<rparr>
                           (socketUserMap s)\<rparr>,
                     [(sock, WaitingForApproval
                         ''Your request is pending. Please wait for the host to admit you.''
                         (Some True) None)])"
    if "hasPendingRequest s now room u"
    using assms(2-4) that nh
    by (simp add: request_join_room_def Let_def isDenied_def isHost_def isApproved_def
        hasPendingRequest_def split: option.splits)
  from first again show ?thesis by blast
qed

theorem duplicate_request_within_window_witness:
  "reachable waiting_room
   \<and> map_of (roomMetadata waiting_room) ''R'' = Some waiting_md
   \<and> \<not> isApproved waiting_room ''R'' ''uc'' \<and> \<not> isDenied waiting_room ''R'' ''uc''
   \<and> \<not> hasPendingRequest waiting_room 2000 ''R'' ''uc''
   \<and> (2500::int) - 2000 < DEDUP_WINDOW
   \<and> members waiting_room (hostSocketId waiting_md) = [hostSocketId waiting_md]
   \<and> hostSocketId waiting_md = ''A''
   \<and> (case request_join_room waiting_room ''G'' 2000 ''R'' ''uc'' ''Cyd'' False of
           Inl err \<Rightarrow> False
         | Inr (s1, out1) \<Rightarrow>
             out1 = [(''G'', WaitingForApproval ''Waiting for the host to admit you...'' None
                        (Some (length (case map_of (pendingJoinRequests s1) ''R'' of
                                         None \<Rightarrow> [] | Some q \<Rightarrow> q)))),
                     (''A'', JoinRequest ''uc'' ''Cyd'' ''G'' 2000)]
           \<and> (case request_join_room s1 ''A'' 2500 ''R'' ''uc'' ''Cyd'' True of
                 Inl err \<Rightarrow> False
               | Inr (s2, out2) \<Rightarrow>
                   out2 = [(''A'', WaitingForApproval
                              ''Your request is pending. Please wait for the host to admit you.''
                              (Some True) None)]
                 \<and> pendingJoinRequests s2 = pendingJoinRequests s1
                 \<and> map_of (case map_of (pendingJoinRequests s2) ''R'' of
                              None \<Rightarrow> [] | Some q \<Rightarrow> q) ''uc''
                     = Some \<lparr>r_oduserId = ''uc'', r_userName = ''Cyd'', r_socketId = Some ''G'',
                             requestedAt = 2000, status = ''pending''\<rparr>))
   \<and> \<not> isApproved waiting_room ''R'' ''ug'' \<and> \<not> isDenied waiting_room ''R'' ''ug''
   \<and> hasPendingRequest waiting_room 2000 ''R'' ''ug''
   \<and> map_sum id snd (request_join_room waiting_room ''G'' 2000 ''R'' ''ug'' ''Gil'' False)
       = Inr [(''G'', WaitingForApproval
                 ''Your request is pending. Please wait for the host to admit you.''
                 (Some True) None)]"
proof -
  have h2: "map_of (roomMetadata waiting_room) ''R'' = Some waiting_md"
    by (simp add: waiting_room_def)
  have h3: "\<not> isApproved waiting_room ''R'' ''uc''" by code_simp
  have h4: "\<not> isDenied waiting_room ''R'' ''uc''" by code_simp
  have h5: "\<not> hasPendingRequest waiting_room 2000 ''R'' ''uc''" by code_simp
  have h6: "(2500::int) - 2000 < DEDUP_WINDOW" by (simp add: DEDUP_WINDOW_def)
  have h7: "members waiting_room (hostSocketId waiting_md) = [hostSocketId waiting_md]"
    by code_simp
  have h8: "hostSocketId waiting_md = ''A''" by (simp add: waiting_md_def)
  have g3: "\<not> isApproved waiting_room ''R'' ''ug''" by code_simp
  have g4: "\<not> isDenied waiting_room ''R'' ''ug''" by code_simp
  have g5: "hasPendingRequest waiting_room 2000 ''R'' ''ug''" by code_simp
  note T = duplicate_request_within_window [OF reachable_waiting_room h2 h3 h4,
        where sock = "''G''" and now = 2000 and now' = 2500 and userName = "''Cyd''"
          and isRejoin = False and sock' = "''A''" and userName' = "''Cyd''"
          and isRejoin' = True, THEN conjunct1, rule_format, OF conjI [OF h5 h6]]
  note U = duplicate_request_within_window [OF reachable_waiting_room h2 g3 g4,
        where sock = "''G''" and now = 2000 and userName = "''Gil''" and isRejoin = False,
        THEN conjunct2, rule_format, OF g5]
  from T obtain s1 out1
    where r: "request_join_room waiting_room ''G'' 2000 ''R'' ''uc'' ''Cyd'' False = Inr (s1, out1)"
    by (cases "request_join_room waiting_room ''G'' 2000 ''R'' ''uc'' ''Cyd'' False") auto
  from T r have o: "out1 = (''G'', WaitingForApproval ''Waiting for the host to admit you...'' None
                        (Some (length (case map_of (pendingJoinRequests s1) ''R'' of
                                         None \<Rightarrow> [] | Some q \<Rightarrow> q))))
                    # (if hostSocketId waiting_md = [] then []
                       else map (\<lambda>t. (t, JoinRequest ''uc'' ''Cyd'' ''G'' 2000))
                              (members waiting_room (hostSocketId waiting_md)))"
    and c: "case request_join_room s1 ''A'' 2500 ''R'' ''uc'' ''Cyd'' True of
                 Inl err \<Rightarrow> False
               | Inr (s2, out2) \<Rightarrow>
                   out2 = [(''A'', WaitingForApproval
                              ''Your request is pending. Please wait for the host to admit you.''
                              (Some True) None)]
                 \<and> pendingJoinRequests s2 = pendingJoinRequests s1
                 \<and> map_of (case map_of (pendingJoinRequests s2) ''R'' of
                              None \<Rightarrow> [] | Some q \<Rightarrow> q) ''uc''
                     = Some \<lparr>r_oduserId = ''uc'', r_userName = ''Cyd'', r_socketId = Some ''G'',
                             requestedAt = 2000, status = ''pending''\<rparr>"
    by simp_all
  from o h7 h8 have o': "out1 = [(''G'', WaitingForApproval ''Waiting for the host to admit you...'' None
                        (Some (length (case map_of (pendingJoinRequests s1) ''R'' of
                                         None \<Rightarrow> [] | Some q \<Rightarrow> q)))),
                     (''A'', JoinRequest ''uc'' ''Cyd'' ''G'' 2000)]"
    by simp
  from U have u: "map_sum id snd (request_join_room waiting_room ''G'' 2000 ''R'' ''ug'' ''Gil'' False)
       = Inr [(''G'', WaitingForApproval
                 ''Your request is pending. Please wait for the host to admit you.''
                 (Some True) None)]"
    by simp
  show ?thesis
    using reachable_waiting_room h2 h3 h4 h5 h6 h7 h8 g3 g4 g5 r o' c u by simp
qed

text \<open>
  C6 fails as stated. In the waiting room Gil's request is pending since time 1000. Two
  further requests of Gil, at 2000 and at 2500, are consecutive and half a second apart,
  and Gil is neither approved nor denied; both are answered as duplicates, the state is
  unchanged, and no join-request is emitted.
\<close>

theorem repeated_requests_emit_no_join_request:
  "\<not> isApproved waiting_room ''R'' ''ug'' \<and> \<not> isDenied waiting_room ''R'' ''ug''
   \<and> (2500::int) - 2000 < DEDUP_WINDOW
   \<and> request_join_room waiting_room ''G'' 2000 ''R'' ''ug'' ''Gil'' False
       = Inr (waiting_room,
              [(''G'', WaitingForApproval
                  ''Your request is pending. Please wait for the host to admit you.''
                  (Some True) None)])
   \<and> request_join_room waiting_room ''G'' 2500 ''R'' ''ug'' ''Gil'' False
       = Inr (waiting_room,
              [(''G'', WaitingForApproval
                  ''Your request is pending. Please wait for the host to admit you.''
                  (Some True) None)])"
  by code_simp

subsection \<open>Two spellings of one user id\<close>

text \<open>
  C5 at a failing input. The host Ann is in room R; a guest asks to join as \<open>''a ''\<close> (with a
  trailing blank) and then as \<open>''a''\<close>, so both spellings are pending; the host approves
  \<open>''a''\<close>. \<^verbatim>\<open>approveUser\<close> adds \<open>''a''\<close> to the approved users and deletes only the first
  pending key with that normal form, which is \<open>''a ''\<close>: the user id \<open>''a''\<close> is now both
  approved and pending.
\<close>

theorem approved_user_still_pending:
  "map_sum id fst (run init_hub spelling_events) = Inr spelling_state
   \<and> map_of (approvedUsers spelling_state) ''R'' = Some [''ua'', ''a'']
   \<and> map_option (map fst) (map_of (pendingJoinRequests spelling_state) ''R'') = Some [''a'']
   \<and> isApproved spelling_state ''R'' ''a''"
  by code_simp

subsection \<open>Participants are in the socket.io room\<close>

lemma members_record_update [simp]:
  "members (s\<lparr>rooms := a\<rparr>) = members s"
  "members (s\<lparr>roomMetadata := b\<rparr>) = members s"
  "members (s\<lparr>approvedUsers := g\<rparr>) = members s"
  "members (s\<lparr>pendingJoinRequests := c\<rparr>) = members s"
  "members (s\<lparr>deniedUsers := d\<rparr>) = members s"
  "members (s\<lparr>socketUserMap := e\<rparr>) = members s"
  by (simp_all add: members_def fun_eq_iff)

lemma members_helpers [simp]:
  "members (updateHostSocketId s room h) = members s"
  "members (registerApprover s sock room a) = members s"
  "members (approveUser s room u) = members s"
  "members (deletePending s room k) = members s"
  "members (denyUser s now room u why) = members s"
  "members (fst (admitLoop s room reqs)) = members s"
  "members (fst (sweepRooms s now ks)) = members s"
  by (simp_all add: members_def fun_eq_iff)



lemma map_of_None_keys: "k \<notin> set (map fst al) \<Longrightarrow> map_of al k = None"
  by (simp add: map_of_eq_None_iff)



lemma findOldSocket_None_or_other: "findOldSocket sock u r = Some old \<Longrightarrow> old \<noteq> sock"
  by (auto simp: findOldSocket_def find_Some_iff)




subsection \<open>How the metadata of a room evolves\<close>

lemma sameRoom_refl [simp]: "sameRoom md md"
  by (simp add: sameRoom_def)

lemma sameRoom_hostSocketId [simp]: "sameRoom md (md\<lparr>hostSocketId := h\<rparr>)"
  by (simp add: sameRoom_def)

lemma handleUserLeave_metadata:
  "map_of (roomMetadata (fst (handleUserLeave s sock room1 u))) room =
     (if room = room1 \<and> emptiedBy s sock room1 then None else map_of (roomMetadata s) room)"
  by (simp add: handleUserLeave_def emptiedBy_def Let_def split: option.splits)

lemma handleUserLeave_rooms:
  "map_of (rooms (fst (handleUserLeave s sock room1 u))) room =
     (if room = room1
      then (case map_of (rooms s) room1 of
              None \<Rightarrow> None
            | Some r \<Rightarrow> if AList.delete sock r = [] then None else Some (AList.delete sock r))
      else map_of (rooms s) room)"
  by (simp add: handleUserLeave_def Let_def alist_simps split: option.splits)

lemma leaveRooms_metadata:
  assumes "map_of (roomMetadata s) room = Some md"
  shows "map_of (roomMetadata (fst (leaveRooms s sock ks))) room = Some md
       \<or> (map_of (roomMetadata (fst (leaveRooms s sock ks))) room = None \<and> emptiedBy s sock room)"
  using assms
proof (induction s sock ks rule: leaveRooms.induct)
  case (1 s sock)
  then show ?case by simp
next
  case (2 s sock room1 others)
  show ?case
  proof (cases "case map_of (rooms s) room1 of None \<Rightarrow> None | Some r \<Rightarrow> map_of r sock")
    case None
    with "2.IH"(1) [OF None "2.prems"] show ?thesis by simp
  next
    case (Some userData)
    define s1 where "s1 = fst (handleUserLeave s sock room1 (p_oduserId userData))"
    show ?thesis
    proof (cases "room = room1 \<and> emptiedBy s sock room1")
      case True
      then have m: "map_of (roomMetadata s1) room = None"
        by (simp add: s1_def handleUserLeave_metadata)
      have "map_of (roomMetadata (fst (leaveRooms s1 sock others))) room = None"
        using m
      proof (induction s1 sock others rule: leaveRooms.induct)
        case (1 s sock)
        then show ?case by simp
      next
        case (2 s sock room others)
        then show ?case
          by (auto simp: Let_def handleUserLeave_metadata split: option.splits)
      qed
      with True Some show ?thesis by (simp add: Let_def s1_def)
    next
      case False
      then have m: "map_of (roomMetadata s1) room = Some md"
        using "2.prems" by (auto simp: s1_def handleUserLeave_metadata)
      from "2.IH"(2) [OF Some refl m [unfolded s1_def]]
      have "map_of (roomMetadata (fst (leaveRooms s1 sock others))) room = Some md
       \<or> (map_of (roomMetadata (fst (leaveRooms s1 sock others))) room = None
            \<and> emptiedBy s1 sock room)"
        by (simp add: s1_def)
      moreover have "emptiedBy s1 sock room \<Longrightarrow> emptiedBy s sock room"
        using False
        by (auto simp: emptiedBy_def s1_def handleUserLeave_rooms AList.delete_idem
            split: option.splits if_splits)
      ultimately show ?thesis using Some by (auto simp: Let_def s1_def)
    qed
  qed
qed


lemma metadata_handle:
  assumes "handle s sock now e = Inr (s', out)" and "map_of (roomMetadata s) room = Some md"
  shows "(\<exists>md'. map_of (roomMetadata s') room = Some md' \<and> sameRoom md md')
       \<or> (map_of (roomMetadata s') room = None
            \<and> (((\<exists>u. e = LeaveRoom room u) \<or> e = Disconnect) \<and> emptiedBy s sock room
                \<or> e = EndMeeting room \<and> endedByHost s sock room))"
proof (cases e)
  case (RequestJoinRoom room1 u userName isRejoin)
  with assms show ?thesis
    by (auto simp: request_join_room_def Let_def alist_simps split: if_splits option.splits)
next
  case (ApproveJoinRequest room1 u a)
  with assms show ?thesis
    by (auto simp: approve_join_request_def Let_def alist_simps
        split: if_splits option.splits prod.splits)
next
  case (DenyJoinRequest room1 u why a)
  with assms show ?thesis
    by (auto simp: deny_join_request_def Let_def alist_simps
        split: if_splits option.splits prod.splits)
next
  case (AdmitAllWaiting room1 a)
  with assms show ?thesis
    by (auto simp: admit_all_waiting_def Let_def alist_simps
        split: if_splits option.splits prod.splits)
next
  case (JoinRoom room1 u userName media)
  with assms show ?thesis
    by (auto simp: join_room_def Let_def alist_simps split: if_splits option.splits)
next
  case (UpdateWaitingSocket room1 u)
  with assms show ?thesis
    by (auto simp: update_waiting_socket_def split: option.splits)
next
  case (ToggleMedia room1 type enabled)
  with assms show ?thesis
    by (auto simp: toggle_media_def Let_def split: option.splits if_splits)
next
  case (SetMeetingStartTime room1 t)
  with assms show ?thesis
    by (auto simp: set_meeting_start_time_def alist_simps sameRoom_def
        split: option.splits if_splits)
next
  case (RequestMeetingStartTime room1)
  with assms show ?thesis
    by (auto simp: request_meeting_start_time_def split: option.splits if_splits)
next
  case (LeaveRoom room1 u)
  with assms(1) have "s' = fst (handleUserLeave s sock room1 u)"
    by (simp add: leave_room_def)
  with assms(2) LeaveRoom show ?thesis by (simp add: handleUserLeave_metadata)
next
  case (EndMeeting room1)
  with assms show ?thesis
    by (auto simp: end_meeting_def endedByHost_def split: option.splits if_splits)
next
  case Disconnect
  define s1 where "s1 = (socket_leaveAll s sock)\<lparr>pendingJoinRequests :=
             map (\<lambda>(room, requests). (room, markStale sock requests))
               (pendingJoinRequests (socket_leaveAll s sock))\<rparr>"
  have m: "map_of (roomMetadata s1) room = Some md" using assms(2) by (simp add: s1_def)
  have e: "emptiedBy s1 sock room = emptiedBy s sock room" by (simp add: s1_def emptiedBy_def)
  from assms(1) Disconnect have "s' = fst (leaveRooms s1 sock (map fst (rooms s1)))"
    by (simp add: disconnect_def Let_def s1_def)
  with leaveRooms_metadata [OF m, of sock "map fst (rooms s1)"] e Disconnect
  show ?thesis by auto
qed (use assms in \<open>auto simp: rejoin_room_def offer_def answer_def ice_candidate_def
      request_renegotiation_def recording_status_def send_message_def transcription_entry_def\<close>)

lemma metadata_step:
  assumes "step s now e = Inr (s', out)" and "map_of (roomMetadata s) room = Some md"
  shows "(\<exists>md'. map_of (roomMetadata s') room = Some md' \<and> sameRoom md md')
       \<or> (map_of (roomMetadata s') room = None
            \<and> (\<exists>sock. ((\<exists>u. e = FromSocket sock (LeaveRoom room u)) \<or> e = FromSocket sock Disconnect)
                         \<and> emptiedBy s sock room
                      \<or> e = FromSocket sock (EndMeeting room) \<and> endedByHost s sock room))"
proof (cases e)
  case (FromSocket sock ce)
  with assms metadata_handle [of s sock now ce s' out room md] show ?thesis by auto
next
  case SweeperTick
  with assms have "s' = fst (sweeper_tick s now)" by simp
  with assms(2) show ?thesis by (simp add: sweeper_tick_def)
next
  case (Connection c)
  with assms show ?thesis by auto
qed

subsection \<open>Room lifetime\<close>

lemma roomGone_cleanupRoom [simp]: "roomGone (cleanupRoom s room) room"
  by (simp add: roomGone_def)

lemma roomGone_socket_leave [simp]: "roomGone (socket_leave s sock room') room = roomGone s room"
  by (simp add: roomGone_def)

lemma handleUserLeave_emptied:
  "emptiedBy s sock room \<Longrightarrow> roomGone (fst (handleUserLeave s sock room u)) room"
  by (auto simp: emptiedBy_def handleUserLeave_def Let_def split: option.splits)

lemma handleUserLeave_not_emptied:
  assumes "map_of (rooms s) room = Some r" and "AList.delete sock r \<noteq> []"
  shows "map_of (rooms (fst (handleUserLeave s sock room u))) room = Some (AList.delete sock r)
       \<and> roomMetadata (fst (handleUserLeave s sock room u)) = roomMetadata s
       \<and> approvedUsers (fst (handleUserLeave s sock room u)) = approvedUsers s
       \<and> pendingJoinRequests (fst (handleUserLeave s sock room u)) = pendingJoinRequests s
       \<and> deniedUsers (fst (handleUserLeave s sock room u)) = deniedUsers s"
  using assms by (simp add: handleUserLeave_def Let_def alist_simps)

lemma end_meeting_by_host:
  "endedByHost s sock room \<Longrightarrow> roomGone (fst (end_meeting s sock room)) room"
  by (auto simp: endedByHost_def end_meeting_def split: option.splits)

text \<open>What one \<^verbatim>\<open>handleUserLeave\<close> does to the entries of any room.\<close>

lemma handleUserLeave_approved:
  "map_of (approvedUsers (fst (handleUserLeave s sock room1 u))) room =
     (if room = room1 \<and> emptiedBy s sock room1 then None else map_of (approvedUsers s) room)"
  by (simp add: handleUserLeave_def emptiedBy_def Let_def split: option.splits)

lemma handleUserLeave_pending:
  "map_of (pendingJoinRequests (fst (handleUserLeave s sock room1 u))) room =
     (if room = room1 \<and> emptiedBy s sock room1 then None
      else map_of (pendingJoinRequests s) room)"
  by (simp add: handleUserLeave_def emptiedBy_def Let_def split: option.splits)

lemma handleUserLeave_denied:
  "map_of (deniedUsers (fst (handleUserLeave s sock room1 u))) room =
     (if room = room1 \<and> emptiedBy s sock room1 then None else map_of (deniedUsers s) room)"
  by (simp add: handleUserLeave_def emptiedBy_def Let_def split: option.splits)

lemma emptiedBy_handleUserLeave:
  "emptiedBy (fst (handleUserLeave s sock room1 u)) sock room \<Longrightarrow> emptiedBy s sock room"
  by (auto simp: emptiedBy_def handleUserLeave_rooms AList.delete_idem
      split: option.splits if_splits)

lemma roomGone_handleUserLeave:
  "roomGone s room \<Longrightarrow> roomGone (fst (handleUserLeave s sock room1 u)) room"
  by (auto simp: roomGone_def handleUserLeave_rooms handleUserLeave_metadata
      handleUserLeave_approved handleUserLeave_pending handleUserLeave_denied)

text \<open>The loop of the disconnect handler: a room that the socket does not empty keeps
  its metadata, approved users, pending requests and denied users, and its participants
  map loses the socket; a room whose last participant is the socket is destroyed, and a
  destroyed room stays destroyed.\<close>

lemma leaveRooms_kept:
  assumes "\<not> emptiedBy s sock room"
  shows "map_of (roomMetadata (fst (leaveRooms s sock ks))) room = map_of (roomMetadata s) room
       \<and> map_of (approvedUsers (fst (leaveRooms s sock ks))) room = map_of (approvedUsers s) room
       \<and> map_of (pendingJoinRequests (fst (leaveRooms s sock ks))) room
           = map_of (pendingJoinRequests s) room
       \<and> map_of (deniedUsers (fst (leaveRooms s sock ks))) room = map_of (deniedUsers s) room"
  using assms
proof (induction s sock ks rule: leaveRooms.induct)
  case (1 s sock)
  then show ?case by simp
next
  case (2 s sock room1 others)
  show ?case
  proof (cases "case map_of (rooms s) room1 of None \<Rightarrow> None | Some r \<Rightarrow> map_of r sock")
    case None
    with "2.IH"(1) [OF None "2.prems"] show ?thesis by simp
  next
    case (Some userData)
    define s1 where "s1 = fst (handleUserLeave s sock room1 (p_oduserId userData))"
    from "2.prems" have n: "\<not> emptiedBy s1 sock room"
      unfolding s1_def by (blast dest: emptiedBy_handleUserLeave)
    have k: "map_of (roomMetadata s1) room = map_of (roomMetadata s) room"
      "map_of (approvedUsers s1) room = map_of (approvedUsers s) room"
      "map_of (pendingJoinRequests s1) room = map_of (pendingJoinRequests s) room"
      "map_of (deniedUsers s1) room = map_of (deniedUsers s) room"
      using "2.prems"
      by (auto simp: s1_def handleUserLeave_metadata handleUserLeave_approved
          handleUserLeave_pending handleUserLeave_denied)
    from "2.IH"(2) [OF Some refl n [unfolded s1_def]] k Some
    show ?thesis by (simp add: Let_def s1_def)
  qed
qed

lemma delete_absent: "map_of r k = None \<Longrightarrow> AList.delete k r = r"
  by (induction r) (auto split: if_splits)

lemma leaveRooms_rooms:
  assumes "map_of (rooms s) room = Some r" and "AList.delete sock r \<noteq> []"
  shows "map_of (rooms (fst (leaveRooms s sock ks))) room
           = Some (if room \<in> set ks then AList.delete sock r else r)"
  using assms
proof (induction s sock ks arbitrary: r rule: leaveRooms.induct)
  case (1 s sock)
  then show ?case by simp
next
  case (2 s sock room1 others)
  show ?case
  proof (cases "case map_of (rooms s) room1 of None \<Rightarrow> None | Some r \<Rightarrow> map_of r sock")
    case None
    from "2.IH"(1) [OF None "2.prems"]
    have i: "map_of (rooms (fst (leaveRooms s sock others))) room
           = Some (if room \<in> set others then AList.delete sock r else r)" .
    have "room = room1 \<Longrightarrow> AList.delete sock r = r"
      using None "2.prems"(1) by (simp add: delete_absent)
    with i None show ?thesis by auto
  next
    case (Some userData)
    define s1 where "s1 = fst (handleUserLeave s sock room1 (p_oduserId userData))"
    define r1 where "r1 = (if room = room1 then AList.delete sock r else r)"
    have a: "map_of (rooms s1) room = Some r1"
      using "2.prems" by (auto simp: s1_def r1_def handleUserLeave_rooms)
    have b: "AList.delete sock r1 \<noteq> []"
      using "2.prems"(2) by (simp add: r1_def AList.delete_idem)
    from "2.IH"(2) [OF Some refl a [unfolded s1_def] b]
    have "map_of (rooms (fst (leaveRooms s1 sock others))) room
           = Some (if room \<in> set others then AList.delete sock r1 else r1)"
      by (simp add: s1_def)
    then show ?thesis
      using Some by (auto simp: Let_def s1_def r1_def AList.delete_idem)
  qed
qed

lemma roomGone_leaveRooms:
  "roomGone s room \<Longrightarrow> roomGone (fst (leaveRooms s sock ks)) room"
  by (induction s sock ks rule: leaveRooms.induct)
     (auto simp: Let_def roomGone_handleUserLeave split: option.splits)

lemma leaveRooms_destroys:
  assumes "map_of (rooms s) room = Some r" and "map_of r sock \<noteq> None"
    and "AList.delete sock r = []" and "room \<in> set ks"
  shows "roomGone (fst (leaveRooms s sock ks)) room"
  using assms
proof (induction s sock ks rule: leaveRooms.induct)
  case (1 s sock)
  then show ?case by simp
next
  case (2 s sock room1 others)
  show ?case
  proof (cases "case map_of (rooms s) room1 of None \<Rightarrow> None | Some r \<Rightarrow> map_of r sock")
    case None
    with "2.prems"(1,2) have "room \<noteq> room1" by auto
    with "2.prems"(4) have "room \<in> set others" by simp
    from "2.IH"(1) [OF None "2.prems"(1-3) this] None show ?thesis by simp
  next
    case (Some userData)
    define s1 where "s1 = fst (handleUserLeave s sock room1 (p_oduserId userData))"
    show ?thesis
    proof (cases "room = room1")
      case True
      with "2.prems"(1,3) have "emptiedBy s sock room1" by (simp add: emptiedBy_def)
      then have "roomGone s1 room" unfolding s1_def True by (rule handleUserLeave_emptied)
      then have "roomGone (fst (leaveRooms s1 sock others)) room" by (rule roomGone_leaveRooms)
      with Some show ?thesis by (simp add: Let_def s1_def)
    next
      case False
      with "2.prems"(4) have m: "room \<in> set others" by simp
      from False "2.prems"(1) have a: "map_of (rooms s1) room = Some r"
        by (simp add: s1_def handleUserLeave_rooms)
      from "2.IH"(2) [OF Some refl a [unfolded s1_def] "2.prems"(2,3) m] Some
      show ?thesis by (simp add: Let_def s1_def)
    qed
  qed
qed

text \<open>The disconnect handler first clears the stored socket of the pending requests made
  from the socket, in every room, and then leaves every room the socket participates in.\<close>

lemma disconnect_emptied:
  assumes "map_of (rooms s) room = Some r" and "map_of r sock \<noteq> None"
    and "AList.delete sock r = []"
  shows "roomGone (fst (disconnect s sock)) room"
proof -
  define s1 where "s1 = (socket_leaveAll s sock)\<lparr>pendingJoinRequests :=
             map (\<lambda>(room, requests). (room, markStale sock requests))
               (pendingJoinRequests (socket_leaveAll s sock))\<rparr>"
  have a: "map_of (rooms s1) room = Some r" using assms(1) by (simp add: s1_def)
  then have "room \<in> set (map fst (rooms s1))" by (auto dest: map_of_SomeD intro: rev_image_eqI)
  from leaveRooms_destroys [OF a assms(2,3) this]
  show ?thesis by (simp add: disconnect_def Let_def s1_def)
qed

lemma disconnect_not_emptied:
  assumes "map_of (rooms s) room = Some r" and "AList.delete sock r \<noteq> []"
  shows "map_of (rooms (fst (disconnect s sock))) room = Some (AList.delete sock r)
       \<and> map_of (roomMetadata (fst (disconnect s sock))) room = map_of (roomMetadata s) room
       \<and> map_of (approvedUsers (fst (disconnect s sock))) room = map_of (approvedUsers s) room
       \<and> map_of (pendingJoinRequests (fst (disconnect s sock))) room
           = map_option (markStale sock) (map_of (pendingJoinRequests s) room)
       \<and> map_of (deniedUsers (fst (disconnect s sock))) room = map_of (deniedUsers s) room"
proof -
  define s1 where "s1 = (socket_leaveAll s sock)\<lparr>pendingJoinRequests :=
             map (\<lambda>(room, requests). (room, markStale sock requests))
               (pendingJoinRequests (socket_leaveAll s sock))\<rparr>"
  have d: "fst (disconnect s sock) = fst (leaveRooms s1 sock (map fst (rooms s1)))"
    by (simp add: disconnect_def Let_def s1_def)
  have a: "map_of (rooms s1) room = Some r" using assms(1) by (simp add: s1_def)
  then have m: "room \<in> set (map fst (rooms s1))"
    by (auto dest: map_of_SomeD intro: rev_image_eqI)
  from a assms(2) have n: "\<not> emptiedBy s1 sock room" by (simp add: emptiedBy_def)
  have p: "map_of (pendingJoinRequests s1) room
             = map_option (markStale sock) (map_of (pendingJoinRequests s) room)"
    by (simp add: s1_def map_of_map_snd)
  have f: "roomMetadata s1 = roomMetadata s" "approvedUsers s1 = approvedUsers s"
    "deniedUsers s1 = deniedUsers s"
    by (simp_all add: s1_def)
  from leaveRooms_rooms [OF a assms(2), of "map fst (rooms s1)"] m
    leaveRooms_kept [OF n, of "map fst (rooms s1)"] p f d
  show ?thesis by simp
qed

text \<open>
  C4, as the code has it. A leave-room event destroys the room (participants, metadata,
  approved users, pending requests and denied users are all deleted) when the participants
  map is empty after the removal of the socket, and so does the disconnect of a socket
  that is the only participant, whether or not requests are pending. When participants
  remain, the participants map loses the socket and the room's metadata, approved users
  and denied users are unchanged; a leave-room event leaves the pending requests
  unchanged, a disconnect keeps every pending request and sets the stored socket of those
  made from the disconnecting socket to \<^verbatim>\<open>null\<close>. An end-meeting event from a
  participant whose user id is the host's destroys the room. No other step destroys a
  room: if a room has metadata before a step and none after it, the step is a leave-room
  or disconnect that empties the participants map, or an end-meeting by the host.
\<close>

theorem room_destroyed_when_participants_empty:
  "(emptiedBy s sock room \<longrightarrow> roomGone (fst (leave_room s sock room u)) room)
   \<and> (\<forall>r. map_of (rooms s) room = Some r \<and> map_of r sock \<noteq> None \<and> AList.delete sock r = [] \<longrightarrow>
          roomGone (fst (disconnect s sock)) room)
   \<and> (\<forall>r. map_of (rooms s) room = Some r \<and> AList.delete sock r \<noteq> [] \<longrightarrow>
          map_of (rooms (fst (leave_room s sock room u))) room = Some (AList.delete sock r)
        \<and> roomMetadata (fst (leave_room s sock room u)) = roomMetadata s
        \<and> approvedUsers (fst (leave_room s sock room u)) = approvedUsers s
        \<and> pendingJoinRequests (fst (leave_room s sock room u)) = pendingJoinRequests s
        \<and> deniedUsers (fst (leave_room s sock room u)) = deniedUsers s
        \<and> map_of (rooms (fst (disconnect s sock))) room = Some (AList.delete sock r)
        \<and> map_of (roomMetadata (fst (disconnect s sock))) room = map_of (roomMetadata s) room
        \<and> map_of (approvedUsers (fst (disconnect s sock))) room = map_of (approvedUsers s) room
        \<and> map_of (pendingJoinRequests (fst (disconnect s sock))) room
            = map_option (markStale sock) (map_of (pendingJoinRequests s) room)
        \<and> map_of (deniedUsers (fst (disconnect s sock))) room = map_of (deniedUsers s) room)
   \<and> (endedByHost s sock room \<longrightarrow> roomGone (fst (end_meeting s sock room)) room)
   \<and> (\<forall>now e s' out.
         step s now e = Inr (s', out) \<and> map_of (roomMetadata s) room \<noteq> None
           \<and> map_of (roomMetadata s') room = None \<longrightarrow>
         (\<exists>c. ((\<exists>v. e = FromSocket c (LeaveRoom room v)) \<or> e = FromSocket c Disconnect)
                 \<and> emptiedBy s c room
              \<or> e = FromSocket c (EndMeeting room) \<and> endedByHost s c room))"
proof (intro conjI allI impI)
  assume "emptiedBy s sock room"
  then show "roomGone (fst (leave_room s sock room u)) room"
    unfolding leave_room_def by (rule handleUserLeave_emptied)
next
  fix r
  assume "map_of (rooms s) room = Some r \<and> map_of r sock \<noteq> None \<and> AList.delete sock r = []"
  then show "roomGone (fst (disconnect s sock)) room"
    using disconnect_emptied by blast
next
  assume "endedByHost s sock room"
  then show "roomGone (fst (end_meeting s sock room)) room" by (rule end_meeting_by_host)
next
  fix now e s' out
  assume a: "step s now e = Inr (s', out) \<and> map_of (roomMetadata s) room \<noteq> None
           \<and> map_of (roomMetadata s') room = None"
  then obtain md where md: "map_of (roomMetadata s) room = Some md" by auto
  from a metadata_step [of s now e s' out room md] md
  show "\<exists>c. ((\<exists>v. e = FromSocket c (LeaveRoom room v)) \<or> e = FromSocket c Disconnect)
                 \<and> emptiedBy s c room
              \<or> e = FromSocket c (EndMeeting room) \<and> endedByHost s c room"
    by auto
qed (use handleUserLeave_not_emptied disconnect_not_emptied in \<open>auto simp: leave_room_def\<close>)

theorem room_destroyed_when_participants_empty_witness:
  "emptiedBy waiting_room ''A'' ''R''
   \<and> map_of (rooms waiting_room) ''R'' = Some [(''A'', ann)]
   \<and> map_of [(''A'', ann)] ''A'' \<noteq> None \<and> AList.delete ''A'' [(''A'', ann)] = []
   \<and> map_of (pendingJoinRequests waiting_room) ''R'' \<noteq> None
   \<and> roomGone (fst (leave_room waiting_room ''A'' ''R'' ''ua'')) ''R''
   \<and> roomGone (fst (disconnect waiting_room ''A'')) ''R''
   \<and> endedByHost waiting_room ''A'' ''R''
   \<and> roomGone (fst (end_meeting waiting_room ''A'' ''R'')) ''R''
   \<and> map_of (rooms meeting_room) ''R'' = Some [(''A'', ann), (''B'', bob)]
   \<and> AList.delete ''B'' [(''A'', ann), (''B'', bob)] \<noteq> []
   \<and> roomMetadata (fst (leave_room meeting_room ''B'' ''R'' ''ub'')) = roomMetadata meeting_room
   \<and> pendingJoinRequests (fst (leave_room meeting_room ''B'' ''R'' ''ub''))
       = pendingJoinRequests meeting_room
   \<and> map_of (roomMetadata (fst (disconnect meeting_room ''B''))) ''R''
       = map_of (roomMetadata meeting_room) ''R''
   \<and> AList.delete ''G'' [(''A'', ann)] \<noteq> []
   \<and> map_of (pendingJoinRequests (fst (disconnect waiting_room ''G''))) ''R''
       = map_option (markStale ''G'') (map_of (pendingJoinRequests waiting_room) ''R'')
   \<and> map_option (map (r_socketId \<circ> snd)) (map_of (pendingJoinRequests waiting_room) ''R'')
       = Some [Some ''G'']
   \<and> map_option (map (r_socketId \<circ> snd))
        (map_of (pendingJoinRequests (fst (disconnect waiting_room ''G''))) ''R'')
       = Some [None]"
proof -
  have h1: "emptiedBy waiting_room ''A'' ''R''" by code_simp
  have h2: "endedByHost waiting_room ''A'' ''R''" by code_simp
  have h3: "map_of (rooms meeting_room) ''R'' = Some [(''A'', ann), (''B'', bob)]"
    by (simp add: meeting_room_def)
  have h4: "AList.delete ''B'' [(''A'', ann), (''B'', bob)] \<noteq> []" by simp
  have h5: "map_of (pendingJoinRequests waiting_room) ''R'' \<noteq> None"
    by (simp add: waiting_room_def)
  have h6: "map_of (rooms waiting_room) ''R'' = Some [(''A'', ann)]"
    by (simp add: waiting_room_def)
  have h7: "map_of [(''A'', ann)] ''A'' \<noteq> None" by simp
  have h8: "AList.delete ''A'' [(''A'', ann)] = []" by simp
  have h9: "AList.delete ''G'' [(''A'', ann)] \<noteq> []" by simp
  have p1: "map_option (map (r_socketId \<circ> snd)) (map_of (pendingJoinRequests waiting_room) ''R'')
       = Some [Some ''G'']"
    by code_simp
  have p2: "map_option (map (r_socketId \<circ> snd))
        (map_of (pendingJoinRequests (fst (disconnect waiting_room ''G''))) ''R'')
       = Some [None]"
    by code_simp
  note A = room_destroyed_when_participants_empty [of waiting_room "''A''" "''R''" "''ua''"]
  note B = room_destroyed_when_participants_empty [of meeting_room "''B''" "''R''" "''ub''"]
  note G = room_destroyed_when_participants_empty [of waiting_room "''G''" "''R''" "''ug''"]
  from A h1 h2 have w: "roomGone (fst (leave_room waiting_room ''A'' ''R'' ''ua'')) ''R''"
    "roomGone (fst (end_meeting waiting_room ''A'' ''R'')) ''R''"
    by blast+
  from A [THEN conjunct2, THEN conjunct1, rule_format, of "[(''A'', ann)]"] h6 h7 h8
  have d: "roomGone (fst (disconnect waiting_room ''A'')) ''R''" by blast
  from B [THEN conjunct2, THEN conjunct2, THEN conjunct1, rule_format,
      of "[(''A'', ann), (''B'', bob)]"] h3 h4
  have m: "roomMetadata (fst (leave_room meeting_room ''B'' ''R'' ''ub'')) = roomMetadata meeting_room"
    "pendingJoinRequests (fst (leave_room meeting_room ''B'' ''R'' ''ub''))
       = pendingJoinRequests meeting_room"
    "map_of (roomMetadata (fst (disconnect meeting_room ''B''))) ''R''
       = map_of (roomMetadata meeting_room) ''R''"
    by blast+
  from G [THEN conjunct2, THEN conjunct2, THEN conjunct1, rule_format, of "[(''A'', ann)]"] h6 h9
  have g: "map_of (pendingJoinRequests (fst (disconnect waiting_room ''G''))) ''R''
       = map_option (markStale ''G'') (map_of (pendingJoinRequests waiting_room) ''R'')"
    by blast
  from h1 h2 h3 h4 h5 h6 h7 h8 h9 w d m g p1 p2 show ?thesis by blast
qed

text \<open>
  C4 fails as stated: Ann is the only participant and Gil's request is pending; when Ann
  leaves, the room is deleted together with its pending requests and approved users.
\<close>

theorem last_participant_leaves_with_pending_request:
  "map_option (map fst) (map_of (pendingJoinRequests waiting_room) ''R'') = Some [''ug'']
   \<and> map_option (map fst) (map_of (rooms waiting_room) ''R'') = Some [''A'']
   \<and> map_of (roomMetadata (fst (leave_room waiting_room ''A'' ''R'' ''ua''))) ''R'' = None
   \<and> map_of (pendingJoinRequests (fst (leave_room waiting_room ''A'' ''R'' ''ua''))) ''R'' = None
   \<and> map_of (approvedUsers (fst (leave_room waiting_room ''A'' ''R'' ''ua''))) ''R'' = None"
  by code_simp

subsection \<open>Meeting start time\<close>

text \<open>
  C9, as the code has it. In a room whose start time is unset (absent or zero), a
  set-meeting-start-time event with a non-zero start time stores it. Once a non-zero start
  time is stored, a set-meeting-start-time event changes nothing, request-meeting-start-time
  answers with the stored time, and every step of the hub either destroys the room or
  leaves the stored start time as it is.
\<close>

theorem start_time_set_once:
  "(\<forall>md. map_of (roomMetadata s) room = Some md \<and> \<not> truthy (meetingStartTime md) \<and> t \<noteq> 0 \<longrightarrow>
       map_of (roomMetadata (fst (set_meeting_start_time s sock room t))) room
         = Some (md\<lparr>meetingStartTime := Some t\<rparr>))
   \<and> (\<forall>md. map_of (roomMetadata s) room = Some md \<and> meetingStartTime md = Some t \<and> t \<noteq> 0 \<longrightarrow>
         set_meeting_start_time s sock room t' = (s, [])
       \<and> request_meeting_start_time s sock room = (s, [(sock, MeetingStartTimeMsg t)])
       \<and> (\<forall>now e s' out. step s now e = Inr (s', out) \<longrightarrow>
             map_of (roomMetadata s') room = None
           \<or> (\<exists>md'. map_of (roomMetadata s') room = Some md' \<and> meetingStartTime md' = Some t)))"
proof (intro conjI allI impI)
  fix md
  assume "map_of (roomMetadata s) room = Some md \<and> \<not> truthy (meetingStartTime md) \<and> t \<noteq> 0"
  then show "map_of (roomMetadata (fst (set_meeting_start_time s sock room t))) room
         = Some (md\<lparr>meetingStartTime := Some t\<rparr>)"
    by (simp add: set_meeting_start_time_def alist_simps)
next
  fix md
  assume "map_of (roomMetadata s) room = Some md \<and> meetingStartTime md = Some t \<and> t \<noteq> 0"
  then show "set_meeting_start_time s sock room t' = (s, [])"
    by (simp add: set_meeting_start_time_def truthy_def)
next
  fix md
  assume "map_of (roomMetadata s) room = Some md \<and> meetingStartTime md = Some t \<and> t \<noteq> 0"
  then show "request_meeting_start_time s sock room = (s, [(sock, MeetingStartTimeMsg t)])"
    by (simp add: request_meeting_start_time_def)
next
  fix md now e s' out
  assume a: "map_of (roomMetadata s) room = Some md \<and> meetingStartTime md = Some t \<and> t \<noteq> 0"
    and st: "step s now e = Inr (s', out)"
  from a have "truthy (meetingStartTime md)" by (simp add: truthy_def)
  with metadata_step [OF st, of room md] a
  show "map_of (roomMetadata s') room = None
           \<or> (\<exists>md'. map_of (roomMetadata s') room = Some md' \<and> meetingStartTime md' = Some t)"
    by (auto simp: sameRoom_def)
qed


theorem start_time_set_once_witness:
  "map_of (roomMetadata waiting_room) ''R'' = Some waiting_md
   \<and> \<not> truthy (meetingStartTime waiting_md)
   \<and> (1700000000000 :: int) \<noteq> 0
   \<and> map_of (roomMetadata (fst (set_meeting_start_time waiting_room ''A'' ''R'' 1700000000000))) ''R''
           = Some (waiting_md\<lparr>meetingStartTime := Some 1700000000000\<rparr>)
   \<and> meetingStartTime (waiting_md\<lparr>meetingStartTime := Some 1700000000000\<rparr>) = Some 1700000000000
   \<and> set_meeting_start_time (fst (set_meeting_start_time waiting_room ''A'' ''R'' 1700000000000))
         ''B'' ''R'' 5
           = (fst (set_meeting_start_time waiting_room ''A'' ''R'' 1700000000000), [])
   \<and> request_meeting_start_time (fst (set_meeting_start_time waiting_room ''A'' ''R'' 1700000000000))
         ''B'' ''R''
           = (fst (set_meeting_start_time waiting_room ''A'' ''R'' 1700000000000),
              [(''B'', MeetingStartTimeMsg 1700000000000)])"
proof -
  have h1: "map_of (roomMetadata waiting_room) ''R'' = Some waiting_md"
    by (simp add: waiting_room_def)
  have h2: "\<not> truthy (meetingStartTime waiting_md)"
    by (simp add: waiting_md_def truthy_def)
  have h3: "(1700000000000 :: int) \<noteq> 0" by simp
  have h4: "meetingStartTime (waiting_md\<lparr>meetingStartTime := Some 1700000000000\<rparr>)
              = Some 1700000000000" by simp
  from start_time_set_once [of waiting_room "''R''" 1700000000000 "''A''"] h1 h2 h3
  have s1: "map_of (roomMetadata (fst (set_meeting_start_time waiting_room ''A'' ''R'' 1700000000000))) ''R''
           = Some (waiting_md\<lparr>meetingStartTime := Some 1700000000000\<rparr>)"
    by blast
  from start_time_set_once
    [of "fst (set_meeting_start_time waiting_room ''A'' ''R'' 1700000000000)" "''R''"
        1700000000000 "''B''" 5] s1 h3 h4
  have "set_meeting_start_time (fst (set_meeting_start_time waiting_room ''A'' ''R'' 1700000000000))
         ''B'' ''R'' 5
           = (fst (set_meeting_start_time waiting_room ''A'' ''R'' 1700000000000), [])
   \<and> request_meeting_start_time (fst (set_meeting_start_time waiting_room ''A'' ''R'' 1700000000000))
         ''B'' ''R''
           = (fst (set_meeting_start_time waiting_room ''A'' ''R'' 1700000000000),
              [(''B'', MeetingStartTimeMsg 1700000000000)])"
    by blast
  with h1 h2 h3 h4 s1 show ?thesis by blast
qed

text \<open>
  C9 fails as stated: a first set-meeting-start-time event with start time 0 stores 0,
  request-meeting-start-time then answers nothing, and a second set event overwrites it.
\<close>

theorem falsy_start_time_is_overwritten:
  "map_option meetingStartTime
     (map_of (roomMetadata (fst (set_meeting_start_time waiting_room ''A'' ''R'' 0))) ''R'')
     = Some (Some 0)
   \<and> request_meeting_start_time (fst (set_meeting_start_time waiting_room ''A'' ''R'' 0)) ''G'' ''R''
     = (fst (set_meeting_start_time waiting_room ''A'' ''R'' 0), [])
   \<and> map_option meetingStartTime
     (map_of (roomMetadata (fst (set_meeting_start_time
        (fst (set_meeting_start_time waiting_room ''A'' ''R'' 0)) ''A'' ''R'' 1700000000000))) ''R'')
     = Some (Some 1700000000000)"
  by code_simp

subsection \<open>Transcription fan-out\<close>




subsection \<open>Media toggles\<close>




subsection \<open>User ids in normal form are in one set at most\<close>

text \<open>The defect behind C5 needs two spellings of one id. When every request, approve and
  deny event carries a user id in normal form, the approved users, the pending keys and the
  denied keys of every room stay disjoint, whatever else happens.\<close>

lemma deleteFirstNormalized_normal:
  assumes "\<forall>k \<in> set (map fst al). normalId k" and "distinct (map fst al)"
  shows "deleteFirstNormalized n al = AList.delete n al"
  using assms
proof (induction al)
  case Nil
  then show ?case by simp
next
  case (Cons a al)
  obtain k v where a: "a = (k, v)" by (cases a)
  show ?case
  proof (cases "k = n")
    case True
    with Cons.prems a have "n \<notin> fst ` set al" by auto
    then have "AList.delete n al = al" by (rule delete_id)
    with True a Cons.prems show ?thesis by (simp add: normalId_def)
  next
    case False
    with a Cons show ?thesis by (auto simp: normalId_def)
  qed
qed

lemma findNormalized_normal:
  assumes "\<forall>k \<in> set (map fst al). normalId k"
  shows "findNormalized n al = map_option (Pair n) (map_of al n)"
  using assms by (induction al) (auto simp: normalId_def)

lemma normalId_normalizeId [simp]: "normalId (normalizeId u)"
  by (simp add: normalId_def)

lemma excl_empty [simp]: "excl [] [] []"
  by (simp add: excl_def)

lemma excl_approve:
  "excl A (map fst P) (map fst D) \<Longrightarrow>
   excl (set_add (normalizeId u) A) (map fst (AList.delete (normalizeId u) P))
     (map fst (AList.delete (normalizeId u) D))"
  by (auto simp: excl_def delete_keys distinct_removeAll)

lemma excl_deny:
  "excl A (map fst P) (map fst D) \<Longrightarrow> normalId u \<Longrightarrow> u \<notin> set A \<Longrightarrow>
   excl A (map fst (AList.delete u P)) (map fst (AList.update u d D))"
  by (auto simp: excl_def delete_keys update_keys distinct_removeAll)

lemma excl_request:
  "excl A (map fst P) (map fst D) \<Longrightarrow> normalId u \<Longrightarrow> u \<notin> set A \<Longrightarrow> u \<notin> fst ` set D \<Longrightarrow>
   excl A (map fst (AList.update u r P)) (map fst D)"
  by (auto simp: excl_def update_keys)

lemma excl_delete_pending:
  "excl A (map fst P) D \<Longrightarrow> excl A (map fst (AList.delete k P)) D"
  by (auto simp: excl_def delete_keys distinct_removeAll)

lemma excl_filter_pending:
  "excl A (map fst P) D \<Longrightarrow> excl A (map fst (filter Q P)) D"
  by (auto simp: excl_def distinct_map_filter)

lemma excl_clear_pending: "excl A P D \<Longrightarrow> excl A [] D"
  by (auto simp: excl_def)

lemma map_fst_markStale [simp]: "map fst (markStale sock P) = map fst P"
  by (induction P) (auto simp: markStale_def)

lemma approvedOf_simps [simp]:
  "approvedOf (s\<lparr>rooms := a\<rparr>) = approvedOf s"
  "approvedOf (s\<lparr>roomMetadata := b\<rparr>) = approvedOf s"
  "approvedOf (s\<lparr>pendingJoinRequests := c\<rparr>) = approvedOf s"
  "approvedOf (s\<lparr>deniedUsers := d\<rparr>) = approvedOf s"
  "approvedOf (s\<lparr>socketUserMap := e\<rparr>) = approvedOf s"
  "approvedOf (s\<lparr>sioRooms := f\<rparr>) = approvedOf s"
  "approvedOf (updateHostSocketId s room h) = approvedOf s"
  "approvedOf (registerApprover s sock room a') = approvedOf s"
  "approvedOf (socket_join s sock room) = approvedOf s"
  "approvedOf (socket_leave s sock room) = approvedOf s"
  "approvedOf (socket_leaveAll s sock) = approvedOf s"
  "approvedOf (deletePending s room k) = approvedOf s"
  "approvedOf (denyUser s now room u why) = approvedOf s"
  by (simp_all add: approvedOf_def fun_eq_iff)

lemma pendingOf_simps [simp]:
  "pendingOf (s\<lparr>rooms := a\<rparr>) = pendingOf s"
  "pendingOf (s\<lparr>roomMetadata := b\<rparr>) = pendingOf s"
  "pendingOf (s\<lparr>approvedUsers := c\<rparr>) = pendingOf s"
  "pendingOf (s\<lparr>deniedUsers := d\<rparr>) = pendingOf s"
  "pendingOf (s\<lparr>socketUserMap := e\<rparr>) = pendingOf s"
  "pendingOf (s\<lparr>sioRooms := f\<rparr>) = pendingOf s"
  "pendingOf (updateHostSocketId s room h) = pendingOf s"
  "pendingOf (registerApprover s sock room a') = pendingOf s"
  "pendingOf (socket_join s sock room) = pendingOf s"
  "pendingOf (socket_leave s sock room) = pendingOf s"
  "pendingOf (socket_leaveAll s sock) = pendingOf s"
  by (simp_all add: pendingOf_def fun_eq_iff)

lemma deniedOf_simps [simp]:
  "deniedOf (s\<lparr>rooms := a\<rparr>) = deniedOf s"
  "deniedOf (s\<lparr>roomMetadata := b\<rparr>) = deniedOf s"
  "deniedOf (s\<lparr>approvedUsers := c\<rparr>) = deniedOf s"
  "deniedOf (s\<lparr>pendingJoinRequests := d\<rparr>) = deniedOf s"
  "deniedOf (s\<lparr>socketUserMap := e\<rparr>) = deniedOf s"
  "deniedOf (s\<lparr>sioRooms := f\<rparr>) = deniedOf s"
  "deniedOf (updateHostSocketId s room h) = deniedOf s"
  "deniedOf (registerApprover s sock room a') = deniedOf s"
  "deniedOf (socket_join s sock room) = deniedOf s"
  "deniedOf (socket_leave s sock room) = deniedOf s"
  "deniedOf (socket_leaveAll s sock) = deniedOf s"
  "deniedOf (deletePending s room k) = deniedOf s"
  by (simp_all add: deniedOf_def fun_eq_iff)

lemma cleanupRoom_Of [simp]:
  "approvedOf (cleanupRoom s room) room' = (if room' = room then [] else approvedOf s room')"
  "pendingOf (cleanupRoom s room) room' = (if room' = room then [] else pendingOf s room')"
  "deniedOf (cleanupRoom s room) room' = (if room' = room then [] else deniedOf s room')"
  by (simp_all add: approvedOf_def pendingOf_def deniedOf_def)

lemma approveUser_Of:
  "approvedOf (approveUser s room u) room' =
     (if room' = room then set_add (normalizeId u) (approvedOf s room) else approvedOf s room')"
  "pendingOf (approveUser s room u) room' =
     (if room' = room then deleteFirstNormalized (normalizeId u) (pendingOf s room)
      else pendingOf s room')"
  "deniedOf (approveUser s room u) room' =
     (if room' = room then deleteFirstNormalized (normalizeId u) (deniedOf s room)
      else deniedOf s room')"
  by (simp_all add: approvedOf_def pendingOf_def deniedOf_def split: option.splits)

lemma denyUser_Of:
  "pendingOf (denyUser s now room u why) room' =
     (if room' = room then AList.delete u (pendingOf s room) else pendingOf s room')"
  "deniedOf (denyUser s now room u why) room' =
     (if room' = room then AList.update u \<lparr>deniedAt = now, reason = why\<rparr> (deniedOf s room)
      else deniedOf s room')"
  by (simp_all add: pendingOf_def deniedOf_def split: option.splits)

lemma deletePending_Of:
  "pendingOf (deletePending s room k) room' =
     (if room' = room then AList.delete k (pendingOf s room) else pendingOf s room')"
  by (simp add: pendingOf_def split: option.splits)

lemma exclusive_init: "exclusive init_hub"
  by (simp add: exclusive_def init_hub_def approvedOf_def pendingOf_def deniedOf_def)

lemma exclusive_approveUser:
  assumes "exclusive s"
  shows "exclusive (approveUser s room u)"
  unfolding exclusive_def
proof
  fix room'
  from assms have e: "excl (approvedOf s room') (map fst (pendingOf s room'))
                        (map fst (deniedOf s room'))"
    by (simp add: exclusive_def)
  then have "deleteFirstNormalized (normalizeId u) (pendingOf s room')
               = AList.delete (normalizeId u) (pendingOf s room')"
    and "deleteFirstNormalized (normalizeId u) (deniedOf s room')
               = AList.delete (normalizeId u) (deniedOf s room')"
    by (auto simp: excl_def intro!: deleteFirstNormalized_normal)
  with e show "excl (approvedOf (approveUser s room u) room')
          (map fst (pendingOf (approveUser s room u) room'))
          (map fst (deniedOf (approveUser s room u) room'))"
    by (auto simp: approveUser_Of excl_approve)
qed

lemma exclusive_denyUser:
  assumes "exclusive s" and "normalId u" and "u \<notin> set (approvedOf s room)"
  shows "exclusive (denyUser s now room u why)"
  using assms by (simp add: exclusive_def denyUser_Of excl_deny)

lemma exclusive_deletePending:
  "exclusive s \<Longrightarrow> exclusive (deletePending s room k)"
  by (simp add: exclusive_def deletePending_Of excl_delete_pending)

lemma exclusive_cleanupRoom: "exclusive s \<Longrightarrow> exclusive (cleanupRoom s room)"
  by (simp add: exclusive_def)

lemma exclusive_frame:
  assumes "exclusive s" and "approvedUsers s' = approvedUsers s"
    and "pendingJoinRequests s' = pendingJoinRequests s" and "deniedUsers s' = deniedUsers s"
  shows "exclusive s'"
  using assms by (simp add: exclusive_def approvedOf_def pendingOf_def deniedOf_def)

lemma exclusive_admitLoop:
  "exclusive s \<Longrightarrow> exclusive (fst (admitLoop s room reqs))"
  by (induction s room reqs rule: admitLoop.induct)
     (simp_all add: Let_def exclusive_approveUser)

lemma isApproved_normal:
  assumes "exclusive s" and "normalId u"
  shows "isApproved s room u = (u \<in> set (approvedOf s room))"
proof -
  from assms(1) have "\<forall>k \<in> set (approvedOf s room). normalizeId k = k"
    by (auto simp: exclusive_def excl_def normalId_def)
  with assms(2) show ?thesis
    by (auto simp: isApproved_def approvedOf_def list_ex_iff normalId_def split: option.splits)
qed

lemma isDenied_normal:
  assumes "exclusive s" and "normalId u"
  shows "isDenied s room u = (u \<in> fst ` set (deniedOf s room))"
proof -
  define S where "S = set (map fst (deniedOf s room))"
  from assms(1) have "excl (approvedOf s room) (map fst (pendingOf s room)) (map fst (deniedOf s room))"
    by (simp add: exclusive_def)
  then have k: "\<forall>k \<in> S. normalizeId k = k"
    unfolding S_def excl_def normalId_def by blast
  have "isDenied s room u = (\<exists>i \<in> S. normalizeId i = normalizeId u)"
    unfolding S_def
    by (force simp: isDenied_def deniedOf_def list_ex_iff split: option.splits)
  also have "\<dots> = (u \<in> S)"
    using k assms(2) unfolding normalId_def by metis
  finally show ?thesis by (simp add: S_def)
qed

lemma update_waiting_socket_Of [simp]:
  "approvedOf (fst (update_waiting_socket s sock room u)) = approvedOf s"
  "deniedOf (fst (update_waiting_socket s sock room u)) = deniedOf s"
  "map fst (pendingOf (fst (update_waiting_socket s sock room u)) room')
     = map fst (pendingOf s room')"
proof -
  show "approvedOf (fst (update_waiting_socket s sock room u)) = approvedOf s"
    by (simp add: update_waiting_socket_def split: option.splits)
  show "deniedOf (fst (update_waiting_socket s sock room u)) = deniedOf s"
    by (simp add: update_waiting_socket_def split: option.splits)
  have "map fst (AList.update u r q) = map fst q" if "map_of q u = Some r0" for q r r0
  proof -
    from that have "u \<in> set (map fst q)" by (force dest!: map_of_SomeD)
    then show ?thesis by (simp add: update_keys)
  qed
  then show "map fst (pendingOf (fst (update_waiting_socket s sock room u)) room')
     = map fst (pendingOf s room')"
    by (auto simp: update_waiting_socket_def pendingOf_def alist_simps split: option.splits)
qed

lemma exclusive_handleUserLeave:
  "exclusive s \<Longrightarrow> exclusive (fst (handleUserLeave s sock room u))"
  by (auto simp: handleUserLeave_def Let_def exclusive_def split: option.splits)

lemma exclusive_leaveRooms:
  "exclusive s \<Longrightarrow> exclusive (fst (leaveRooms s sock ks))"
  by (induction s sock ks rule: leaveRooms.induct)
     (auto simp: Let_def exclusive_handleUserLeave split: option.splits)

lemma pendingOf_update:
  "pendingOf (s\<lparr>pendingJoinRequests := AList.update room q (pendingJoinRequests s)\<rparr>) room' =
     (if room' = room then q else pendingOf s room')"
  by (simp add: pendingOf_def alist_simps)

lemma pendingOf_markStale:
  "pendingOf (t\<lparr>pendingJoinRequests :=
       map (\<lambda>(room, requests). (room, markStale sock requests)) q\<rparr>) room
     = markStale sock (case map_of q room of None \<Rightarrow> [] | Some r \<Rightarrow> r)"
  by (simp add: pendingOf_def map_of_map_snd markStale_def split: option.splits)

lemma pendingOf_sweepRooms:
  "pendingOf (fst (sweepRooms s now ks)) room =
     (if room \<in> set ks
      then filter (\<lambda>(u, req). now - requestedAt req \<le> REQUEST_TIMEOUT) (pendingOf s room)
      else pendingOf s room)"
  by (simp add: pendingOf_def sweepRooms_pending split: option.splits)

lemma exclusive_request_join_room:
  assumes "exclusive s" and "normalId u"
    and "request_join_room s sock now room u userName isRejoin = Inr (s', out)"
  shows "exclusive s'"
proof -
  define s0 where "s0 = s\<lparr>socketUserMap :=
                  AList.update sock \<lparr>su_oduserId = u, su_userName = Some userName, su_roomId = room\<rparr>
                    (socketUserMap s)\<rparr>"
  have e0: "exclusive s0" using assms(1) by (simp add: s0_def exclusive_def)
  have a0: "isApproved s0 room u = (u \<in> set (approvedOf s0 room))"
    using e0 assms(2) by (rule isApproved_normal)
  have d0: "isDenied s0 room u = (u \<in> fst ` set (deniedOf s0 room))"
    using e0 assms(2) by (rule isDenied_normal)
  have new: "exclusive (s0\<lparr>pendingJoinRequests :=
                 AList.update room (AList.update u r (pendingOf s0 room)) (pendingJoinRequests s0)\<rparr>)"
    if "u \<notin> set (approvedOf s0 room)" and "u \<notin> fst ` set (deniedOf s0 room)" for r
    using e0 that assms(2) by (simp add: exclusive_def pendingOf_update excl_request)
  have host: "exclusive (approveUser (s0\<lparr>roomMetadata := m\<rparr>) room u)" for m
    using e0 by (intro exclusive_approveUser) (simp add: exclusive_def)
  have host2: "exclusive (approveUser (updateHostSocketId s0 room sock) room u)"
    using e0 by (intro exclusive_approveUser) (simp add: exclusive_def)
  from assms(3) show ?thesis
    unfolding request_join_room_def Let_def s0_def [symmetric]
    using e0 a0 d0 new host host2
    by (auto simp: pendingOf_def split: if_splits option.splits)
qed

lemma exclusive_handle:
  assumes "exclusive s" and "normalEvent (FromSocket sock e)"
    and "handle s sock now e = Inr (s', out)"
  shows "exclusive s'"
proof (cases e)
  case (RequestJoinRoom room u userName isRejoin)
  with assms show ?thesis by (auto intro: exclusive_request_join_room)
next
  case (ApproveJoinRequest room u a)
  have "exclusive (socket_join (registerApprover s sock room a) sock room)"
    using assms(1) by (simp add: exclusive_def)
  then have "exclusive (approveUser (socket_join (registerApprover s sock room a) sock room) room u)"
    by (rule exclusive_approveUser)
  with assms ApproveJoinRequest show ?thesis
    by (auto simp: approve_join_request_def Let_def exclusive_def deletePending_Of
        excl_delete_pending split: if_splits option.splits prod.splits)
next
  case (DenyJoinRequest room u why a)
  define s1 where "s1 = registerApprover s sock room a"
  have e1: "exclusive s1" using assms(1) by (simp add: exclusive_def s1_def)
  from assms(2) DenyJoinRequest have n: "normalId u" by simp
  have f: "findNormalized (normalizeId u) (pendingOf s1 room)
             = map_option (Pair u) (map_of (pendingOf s1 room) u)"
  proof -
    from e1 have "excl (approvedOf s1 room) (map fst (pendingOf s1 room)) (map fst (deniedOf s1 room))"
      by (simp add: exclusive_def)
    then have "\<forall>k \<in> set (map fst (pendingOf s1 room)). normalId k"
      by (simp add: excl_def)
    then have "findNormalized (normalizeId u) (pendingOf s1 room)
             = map_option (Pair (normalizeId u)) (map_of (pendingOf s1 room) (normalizeId u))"
      by (rule findNormalized_normal)
    with n show ?thesis by (simp add: normalId_def)
  qed
  have d: "exclusive (denyUser s1 now room u why')" if "map_of (pendingOf s1 room) u = Some r"
    for r why'
  proof (rule exclusive_denyUser [OF e1 n])
    from that have "u \<in> set (map fst (pendingOf s1 room))" by (force dest!: map_of_SomeD)
    moreover from e1 have "excl (approvedOf s1 room) (map fst (pendingOf s1 room))
        (map fst (deniedOf s1 room))" by (simp add: exclusive_def)
    then have "set (approvedOf s1 room) \<inter> set (map fst (pendingOf s1 room)) = {}"
      by (simp add: excl_def)
    ultimately show "u \<notin> set (approvedOf s1 room)" by blast
  qed
  from assms(3) DenyJoinRequest
  have "deny_join_request s sock now room u why a = (s', out)" by simp
  then show ?thesis
    unfolding deny_join_request_def Let_def s1_def [symmetric] pendingOf_def [symmetric]
    using e1 f d assms(1)
    by (auto simp: exclusive_deletePending split: if_splits option.splits prod.splits)
next
  case (AdmitAllWaiting room a)
  have "exclusive (registerApprover s sock room a)"
    using assms(1) by (simp add: exclusive_def)
  then have "exclusive (fst (admitLoop (registerApprover s sock room a) room q))" for q
    by (rule exclusive_admitLoop)
  then have "exclusive ((fst (admitLoop (registerApprover s sock room a) room q))
               \<lparr>pendingJoinRequests := AList.update room []
                   (pendingJoinRequests (fst (admitLoop (registerApprover s sock room a) room q)))\<rparr>)"
    for q
    by (auto simp: exclusive_def pendingOf_update intro: excl_clear_pending)
  with assms AdmitAllWaiting show ?thesis
    by (auto simp: admit_all_waiting_def Let_def exclusive_def
        split: if_splits option.splits prod.splits)
next
  case (JoinRoom room u userName media)
  with assms show ?thesis
    by (auto simp: join_room_def Let_def exclusive_def split: if_splits option.splits)
next
  case (UpdateWaitingSocket room u)
  with assms(3) have "s' = fst (update_waiting_socket s sock room u)" by simp
  with assms(1) show ?thesis by (simp add: exclusive_def)
next
  case (ToggleMedia room type enabled)
  with assms show ?thesis
    by (auto simp: toggle_media_def Let_def exclusive_def split: option.splits if_splits)
next
  case (SetMeetingStartTime room t)
  with assms show ?thesis
    by (auto simp: set_meeting_start_time_def exclusive_def split: option.splits if_splits)
next
  case (RequestMeetingStartTime room)
  with assms show ?thesis
    by (auto simp: request_meeting_start_time_def split: option.splits if_splits)
next
  case (LeaveRoom room u)
  with assms(3) have "s' = fst (handleUserLeave s sock room u)"
    by (simp add: leave_room_def)
  with assms(1) show ?thesis by (simp add: exclusive_handleUserLeave)
next
  case (EndMeeting room)
  with assms show ?thesis
    by (auto simp: end_meeting_def exclusive_def split: option.splits if_splits)
next
  case Disconnect
  have "exclusive
          ((socket_leaveAll s sock)\<lparr>pendingJoinRequests :=
             map (\<lambda>(room, requests). (room, markStale sock requests))
               (pendingJoinRequests (socket_leaveAll s sock))\<rparr>)"
    using assms(1) by (simp add: exclusive_def pendingOf_markStale) (simp add: pendingOf_def)
  moreover from assms(3) Disconnect have "s' = fst (disconnect s sock)" by simp
  ultimately show ?thesis
    by (simp add: disconnect_def Let_def exclusive_leaveRooms)
qed (use assms in \<open>auto simp: rejoin_room_def offer_def answer_def ice_candidate_def
      request_renegotiation_def recording_status_def send_message_def transcription_entry_def\<close>)

lemma exclusive_step:
  assumes "exclusive s" and "normalEvent e" and "step s now e = Inr (s', out)"
  shows "exclusive s'"
proof (cases e)
  case (FromSocket sock ce)
  with assms show ?thesis by (auto intro: exclusive_handle)
next
  case SweeperTick
  with assms have "s' = fst (sweeper_tick s now)" by simp
  with assms(1) show ?thesis
    by (auto simp: sweeper_tick_def exclusive_def pendingOf_sweepRooms approvedOf_def deniedOf_def
        intro: excl_filter_pending)
next
  case (Connection c)
  with assms show ?thesis by (auto simp: exclusive_def)
qed

lemma reachableNormal_exclusive: "reachableNormal s \<Longrightarrow> exclusive s"
  by (induction rule: reachableNormal.induct)
     (auto intro: exclusive_init exclusive_step)

lemma normal_ids_in_one_set:
  assumes "reachableNormal s"
  shows "\<not> (u \<in> set (approvedOf s room) \<and> u \<in> fst ` set (pendingOf s room))
       \<and> \<not> (u \<in> set (approvedOf s room) \<and> u \<in> fst ` set (deniedOf s room))
       \<and> \<not> (u \<in> fst ` set (pendingOf s room) \<and> u \<in> fst ` set (deniedOf s room))"
proof -
  from assms have "exclusive s" by (rule reachableNormal_exclusive)
  then have "excl (approvedOf s room) (map fst (pendingOf s room)) (map fst (deniedOf s room))"
    by (simp add: exclusive_def)
  then have "set (approvedOf s room) \<inter> set (map fst (pendingOf s room)) = {}"
    and "set (approvedOf s room) \<inter> set (map fst (deniedOf s room)) = {}"
    and "set (map fst (pendingOf s room)) \<inter> set (map fst (deniedOf s room)) = {}"
    by (simp_all add: excl_def)
  then show ?thesis by auto
qed

end
